theory Spec2Isabelle
  imports Complex_Main
begin

section \<open>Price extraction and comparison (streamlit\_app.py)\<close>

text \<open>
  Two abstractions hold throughout. Python strings are lists of 8-bit characters
  (\<^typ>\<open>string\<close>), so a page is one whose text lies in that range; there the regular
  expression class \<^verbatim>\<open>\d\<close> matches the ASCII digits only. An amount is the exact rational
  value of the decimal text, where Python has the binary64 float nearest to it: the
  rounding that \<^verbatim>\<open>float\<close> performs, its overflow to infinity and the rounding of the
  arithmetic on amounts are not represented. Rounding to nearest keeps the order and the
  sign of amounts, which is what the theorems below rest on; it does not keep the digits,
  and a text whose value lies less than half a unit in the last place under 1.01 is
  accepted by Python and rejected here.
\<close>

subsection \<open>Exceptions\<close>

text \<open>
  Every exception the modelled code can raise. \<open>HTTPError\<close> carries the status code of the
  response it was raised for by \<^verbatim>\<open>raise_for_status\<close>; \<open>RequestException\<close> stands for the
  other exceptions of the requests library (connection errors, timeouts, invalid URLs) and
  carries their text.
\<close>

datatype exn =
    TypeError
  | IndexError
  | KeyError
  | ZeroDivisionError
  | HTTPError nat
  | RequestException string

subsection \<open>parse\_price\<close>

definition is_digit :: "char \<Rightarrow> bool" where
  "is_digit c = (c \<in> set ''0123456789'')"

definition digit_value :: "char \<Rightarrow> nat" where
  "digit_value c = of_char c - of_char (CHR ''0'')"

text \<open>\<^verbatim>\<open>re.sub(r'[^\d,.]', '', price_str)\<close>: every character outside the class is dropped.\<close>

fun re_sub_non_price :: "string \<Rightarrow> string" where
  "re_sub_non_price [] = []"
| "re_sub_non_price (c # cs) =
     (if is_digit c \<or> c = CHR '','' \<or> c = CHR ''.'' then c # re_sub_non_price cs
      else re_sub_non_price cs)"

text \<open>\<^verbatim>\<open>price_str.replace(',', '.')\<close>\<close>

fun replace_comma :: "string \<Rightarrow> string" where
  "replace_comma [] = []"
| "replace_comma (c # cs) = (if c = CHR '','' then CHR ''.'' else c) # replace_comma cs"

text \<open>The decimal number written by a digit string, read left to right.\<close>

fun digits_value :: "nat \<Rightarrow> string \<Rightarrow> nat" where
  "digits_value acc [] = acc"
| "digits_value acc (c # cs) = digits_value (10 * acc + digit_value c) cs"

text \<open>
  \<^verbatim>\<open>float(price_str)\<close> on the strings \<open>parse_price\<close> passes to it, which consist of digits
  and periods only: the text is accepted when it has at least one digit and at most one
  period (\<^verbatim>\<open>"12"\<close>, \<^verbatim>\<open>"12."\<close>, \<^verbatim>\<open>".5"\<close>, \<^verbatim>\<open>"12.5"\<close>), and \<open>None\<close> stands for the
  \<^verbatim>\<open>ValueError\<close> raised otherwise. Any other character is rejected here.
\<close>

definition float_of_str :: "string \<Rightarrow> rat option" where
  "float_of_str s =
     (let ip = takeWhile is_digit s; rest = dropWhile is_digit s in
      case rest of
        [] \<Rightarrow> if ip = [] then None else Some (of_nat (digits_value 0 ip))
      | c # fp \<Rightarrow>
          if c = CHR ''.'' \<and> list_all is_digit fp \<and> (ip \<noteq> [] \<or> fp \<noteq> [])
          then Some (of_nat (digits_value 0 (ip @ fp)) / 10 ^ length fp)
          else None)"

definition parse_price :: "string \<Rightarrow> rat option" where
  "parse_price price_str =
     (let price_str1 = re_sub_non_price price_str;
          price_str2 = replace_comma price_str1
      in case float_of_str price_str2 of
           Some price \<Rightarrow> if price \<ge> 101 / 100 then Some price else None
         | None \<Rightarrow> None)"

subsection \<open>Parsed documents\<close>

text \<open>
  The tree that \<^verbatim>\<open>BeautifulSoup(html_content, 'html.parser')\<close> builds: a tag has a name,
  its attributes (a dictionary, so \<open>map_of\<close> reads it) and its children in document
  order. The parser itself belongs to the bs4 library and is a parameter of the model.
  A string is an ordinary \<^verbatim>\<open>NavigableString\<close> or a string of another class, given by the
  name of the class: \<^verbatim>\<open>Script\<close>, \<^verbatim>\<open>Stylesheet\<close>, \<^verbatim>\<open>TemplateString\<close>, \<^verbatim>\<open>RubyTextString\<close>
  and \<^verbatim>\<open>RubyParenthesisString\<close> for the text inside the tags of those kinds, \<^verbatim>\<open>Comment\<close>,
  \<^verbatim>\<open>CData\<close> and the like. The parser chooses the class.
\<close>

datatype node =
    NavigableString string
  | SpecialString string string
  | Tag string "(string \<times> string) list" "node list"

fun is_tag :: "node \<Rightarrow> bool" where
  "is_tag (Tag n a cs) = True"
| "is_tag (NavigableString s) = False"
| "is_tag (SpecialString cls s) = False"

text \<open>\<^verbatim>\<open>tag.get(key)\<close>: the attribute's value, or Python's \<^verbatim>\<open>None\<close>.\<close>

fun tag_get :: "node \<Rightarrow> string \<Rightarrow> string option" where
  "tag_get (Tag n a cs) k = map_of a k"
| "tag_get (NavigableString s) k = None"
| "tag_get (SpecialString cls s) k = None"

text \<open>All nodes below a list of siblings, parents before children, in document order.\<close>

fun descendants :: "node list \<Rightarrow> node list" where
  "descendants [] = []"
| "descendants (NavigableString s # rest) = NavigableString s # descendants rest"
| "descendants (SpecialString cls s # rest) = SpecialString cls s # descendants rest"
| "descendants (Tag n a cs # rest) = Tag n a cs # descendants cs @ descendants rest"

text \<open>
  The string class a tag is interested in, by the tag's name: the tags that hold
  strings of a class of their own are interested in that class only (\<open>Some\<close> of its
  name), every other tag in ordinary strings and \<^verbatim>\<open>CData\<close> (\<open>None\<close>).
\<close>

definition interesting_string_types :: "string \<Rightarrow> string option" where
  "interesting_string_types name =
     (if name = ''script'' then Some ''Script''
      else if name = ''style'' then Some ''Stylesheet''
      else if name = ''template'' then Some ''TemplateString''
      else if name = ''rt'' then Some ''RubyTextString''
      else if name = ''rp'' then Some ''RubyParenthesisString''
      else None)"

text \<open>\<^verbatim>\<open>.text\<close>: the strings of the wanted class below a list of siblings, concatenated;
  the strings of any other class are left out.\<close>

fun get_text :: "string option \<Rightarrow> node list \<Rightarrow> string" where
  "get_text types [] = []"
| "get_text types (NavigableString s # rest) =
     (if types = None then s else []) @ get_text types rest"
| "get_text types (SpecialString cls s # rest) =
     (if types = Some cls \<or> (types = None \<and> cls = ''CData'') then s else [])
     @ get_text types rest"
| "get_text types (Tag n a cs # rest) = get_text types cs @ get_text types rest"

fun tag_text :: "node \<Rightarrow> string" where
  "tag_text (Tag n a cs) = get_text (interesting_string_types n) cs"
| "tag_text (NavigableString s) = s"
| "tag_text (SpecialString cls s) = s"

text \<open>
  \<^verbatim>\<open>.string\<close>: the single string inside a tag, of whatever class, also through a chain of
  only children; \<open>None\<close> (Python's \<^verbatim>\<open>None\<close>) when a tag on the way has no child or several.
\<close>

fun tag_string :: "node \<Rightarrow> string option" where
  "tag_string (NavigableString s) = Some s"
| "tag_string (SpecialString cls s) = Some s"
| "tag_string (Tag n a [c]) = tag_string c"
| "tag_string (Tag n a cs) = None"

text \<open>Whitespace in the sense of \<^verbatim>\<open>str.strip()\<close> and of the regular expression \<^verbatim>\<open>\s\<close>.\<close>

definition is_space :: "char \<Rightarrow> bool" where
  "is_space c = ((of_char c :: nat) \<in> set [9, 10, 11, 12, 13, 28, 29, 30, 31, 32, 133, 160])"

definition strip :: "string \<Rightarrow> string" where
  "strip s = rev (dropWhile is_space (rev (dropWhile is_space s)))"

text \<open>The values of a \<^verbatim>\<open>class\<close> attribute: its maximal runs of non-whitespace characters.\<close>

fun class_values :: "string \<Rightarrow> string \<Rightarrow> string list" where
  "class_values cur [] = (if cur = [] then [] else [cur])"
| "class_values cur (c # cs) =
     (if is_space c then (if cur = [] then class_values [] cs else cur # class_values [] cs)
      else class_values (cur @ [c]) cs)"

text \<open>\<^verbatim>\<open>soup.find(name, {key: value})\<close>: the first tag in document order with that name
  whose attribute \<open>key\<close> equals \<open>value\<close>.\<close>

fun matches_attr :: "string \<Rightarrow> string \<times> string \<Rightarrow> node \<Rightarrow> bool" where
  "matches_attr name (k, v) (Tag n a cs) = (n = name \<and> map_of a k = Some v)"
| "matches_attr name (k, v) (NavigableString s) = False"
| "matches_attr name (k, v) (SpecialString cls s) = False"

definition soup_find :: "node list \<Rightarrow> string \<Rightarrow> string \<times> string \<Rightarrow> node option" where
  "soup_find soup name attr = find (matches_attr name attr) (descendants soup)"

text \<open>\<^verbatim>\<open>soup.find(class_=class_name)\<close>: the first tag, of any name, one of whose class values
  is \<open>class_name\<close> (no class name searched for contains a space).\<close>

fun matches_class :: "string \<Rightarrow> node \<Rightarrow> bool" where
  "matches_class cn (Tag n a cs) =
     (case map_of a ''class'' of None \<Rightarrow> False | Some v \<Rightarrow> cn \<in> set (class_values [] v))"
| "matches_class cn (NavigableString s) = False"
| "matches_class cn (SpecialString cls s) = False"

definition soup_find_class :: "node list \<Rightarrow> string \<Rightarrow> node option" where
  "soup_find_class soup cn = find (matches_class cn) (descendants soup)"

text \<open>
  \<^verbatim>\<open>soup.find(name)\<close> followed by \<^verbatim>\<open>.find_next_siblings()\<close>: the tags that follow the first
  tag called \<open>name\<close> under the same parent; \<open>None\<close> when there is no such tag.
\<close>

fun find_next_siblings :: "string \<Rightarrow> node list \<Rightarrow> node list option" where
  "find_next_siblings name [] = None"
| "find_next_siblings name (NavigableString s # rest) = find_next_siblings name rest"
| "find_next_siblings name (SpecialString cls s # rest) = find_next_siblings name rest"
| "find_next_siblings name (Tag n a cs # rest) =
     (if n = name then Some (filter is_tag rest)
      else case find_next_siblings name cs of
             Some sibs \<Rightarrow> Some sibs
           | None \<Rightarrow> find_next_siblings name rest)"

subsection \<open>JSON values\<close>

text \<open>What \<^verbatim>\<open>json.loads\<close> returns. The decoder belongs to the standard library and is a
  parameter of the model; \<open>None\<close> stands for \<^verbatim>\<open>JSONDecodeError\<close>.\<close>

datatype json =
    JNull
  | JBool bool
  | JNumber rat
  | JString string
  | JArray "json list"
  | JObject "(string \<times> json) list"

fun starts_with :: "string \<Rightarrow> string \<Rightarrow> bool" where
  "starts_with [] s = True"
| "starts_with (x # xs) [] = False"
| "starts_with (x # xs) (y # ys) = (x = y \<and> starts_with xs ys)"

fun str_contains :: "string \<Rightarrow> string \<Rightarrow> bool" where
  "str_contains k [] = (k = [])"
| "str_contains k (c # cs) = (starts_with k (c # cs) \<or> str_contains k cs)"

text \<open>\<^verbatim>\<open>k in data\<close> for a string \<open>k\<close>: key of a dictionary, element of a list, substring of
  a string; the other values are not containers.\<close>

fun py_in :: "string \<Rightarrow> json \<Rightarrow> exn + bool" where
  "py_in k (JObject kvs) = Inr (map_of kvs k \<noteq> None)"
| "py_in k (JArray xs) = Inr (List.member xs (JString k))"
| "py_in k (JString s) = Inr (str_contains k s)"
| "py_in k JNull = Inl TypeError"
| "py_in k (JBool b) = Inl TypeError"
| "py_in k (JNumber x) = Inl TypeError"

text \<open>\<^verbatim>\<open>data[k]\<close> for a string \<open>k\<close>: only a dictionary can be indexed by a string.\<close>

fun py_getitem :: "json \<Rightarrow> string \<Rightarrow> exn + json" where
  "py_getitem (JObject kvs) k = (case map_of kvs k of Some v \<Rightarrow> Inr v | None \<Rightarrow> Inl KeyError)"
| "py_getitem (JArray xs) k = Inl TypeError"
| "py_getitem (JString s) k = Inl TypeError"
| "py_getitem JNull k = Inl TypeError"
| "py_getitem (JBool b) k = Inl TypeError"
| "py_getitem (JNumber x) k = Inl TypeError"

text \<open>\<^verbatim>\<open>parse_price\<close> applied to a value that need not be a string: \<^verbatim>\<open>re.sub\<close> raises
  \<^verbatim>\<open>TypeError\<close> on anything else.\<close>

fun parse_price_json :: "json \<Rightarrow> exn + rat option" where
  "parse_price_json (JString s) = Inr (parse_price s)"
| "parse_price_json JNull = Inl TypeError"
| "parse_price_json (JBool b) = Inl TypeError"
| "parse_price_json (JNumber x) = Inl TypeError"
| "parse_price_json (JArray xs) = Inl TypeError"
| "parse_price_json (JObject kvs) = Inl TypeError"

fun parse_price_attr :: "string option \<Rightarrow> exn + rat option" where
  "parse_price_attr (Some s) = Inr (parse_price s)"
| "parse_price_attr None = Inl TypeError"

subsection \<open>The libraries and the network\<close>

type_synonym headers = "(string \<times> string) list"

text \<open>
  The answer to one \<^verbatim>\<open>requests.get\<close>: a response with its status code and text, or an
  exception of the requests library with its text.
\<close>

datatype get_result =
    Response nat string
  | GetRaises string

text \<open>
  What the program takes from outside: the HTML parser, the JSON decoder, the network
  (the answer to a request may depend on how many requests went before, on the URL and
  on the headers) and the random source (\<open>random_choice k\<close> is the index drawn when \<open>k\<close>
  requests have been made).
\<close>

record env =
  BeautifulSoup :: "string \<Rightarrow> node list"
  json_loads :: "string \<Rightarrow> json option"
  requests_get :: "nat \<Rightarrow> string \<Rightarrow> headers \<Rightarrow> get_result"
  random_choice :: "nat \<Rightarrow> nat"

subsection \<open>find\_price\_in\_html\<close>

definition extract_price_from_element :: "node \<Rightarrow> rat option" where
  "extract_price_from_element element = parse_price (strip (tag_text element))"

text \<open>\<^verbatim>\<open>if price:\<close> is false for \<^verbatim>\<open>None\<close> and for \<^verbatim>\<open>0.0\<close>.\<close>

fun truthy :: "rat option \<Rightarrow> bool" where
  "truthy None = False"
| "truthy (Some v) = (v \<noteq> 0)"

text \<open>The loop over the siblings of the heading; \<open>None\<close> when the loop ends without
  returning.\<close>

fun sibling_loop :: "node list \<Rightarrow> rat option" where
  "sibling_loop [] = None"
| "sibling_loop (sibling # rest) =
     (let price = extract_price_from_element sibling
      in if truthy price then price else sibling_loop rest)"

definition price_classes :: "string list" where
  "price_classes = [''price'', ''product-price'', ''regular-price'', ''sales-price'',
     ''current-price'', ''woocommerce-Price-amount'']"

fun class_loop :: "node list \<Rightarrow> string list \<Rightarrow> rat option" where
  "class_loop soup [] = None"
| "class_loop soup (class_name # rest) =
     (case soup_find_class soup class_name of
        Some price_elem \<Rightarrow>
          (let price = extract_price_from_element price_elem
           in if truthy price then price else class_loop soup rest)
      | None \<Rightarrow> class_loop soup rest)"

definition find_price_in_html :: "node list \<Rightarrow> rat option" where
  "find_price_in_html soup =
     (case (case find_next_siblings ''h1'' soup of
              Some sibs \<Rightarrow> sibling_loop (take 5 sibs)
            | None \<Rightarrow> None) of
        Some price \<Rightarrow> Some price
      | None \<Rightarrow> class_loop soup price_classes)"

subsection \<open>extract\_price\<close>

definition meta_tags :: "(string \<times> string \<times> string) list" where
  "meta_tags = [(''meta'', ''name'', ''twitter:data1''),
                (''meta'', ''property'', ''og:price:amount''),
                (''meta'', ''property'', ''product:price:amount'')]"

text \<open>The loop over \<open>meta_tags\<close>: \<open>Some r\<close> when the loop returns \<open>r\<close> (or raises), \<open>None\<close>
  when it ends.\<close>

fun meta_loop :: "node list \<Rightarrow> (string \<times> string \<times> string) list \<Rightarrow> (exn + rat option) option" where
  "meta_loop soup [] = None"
| "meta_loop soup ((tag, attrs) # rest) =
     (case soup_find soup tag attrs of
        Some meta_price \<Rightarrow> Some (parse_price_attr (tag_get meta_price ''content''))
      | None \<Rightarrow> meta_loop soup rest)"

text \<open>
  The JSON-LD step for the script tag found: \<open>Some r\<close> when the step returns \<open>r\<close> or raises,
  \<open>None\<close> when control reaches the fallback. Only \<^verbatim>\<open>JSONDecodeError\<close> is caught.
\<close>

definition json_ld_step :: "env \<Rightarrow> node \<Rightarrow> (exn + rat option) option" where
  "json_ld_step E json_ld =
     (case tag_string json_ld of
        None \<Rightarrow> Some (Inl TypeError)
      | Some s \<Rightarrow>
          (case json_loads E s of
             None \<Rightarrow> None
           | Some loaded \<Rightarrow>
               (case (case loaded of
                        JArray xs \<Rightarrow> (case xs of [] \<Rightarrow> Inl IndexError | x # _ \<Rightarrow> Inr x)
                      | _ \<Rightarrow> Inr loaded) of
                  Inl e \<Rightarrow> Some (Inl e)
                | Inr data \<Rightarrow>
                    (case py_in ''offers'' data of
                       Inl e \<Rightarrow> Some (Inl e)
                     | Inr False \<Rightarrow> None
                     | Inr True \<Rightarrow>
                         (case py_getitem data ''offers'' of
                            Inl e \<Rightarrow> Some (Inl e)
                          | Inr offers \<Rightarrow>
                              (case py_in ''price'' offers of
                                 Inl e \<Rightarrow> Some (Inl e)
                               | Inr False \<Rightarrow> None
                               | Inr True \<Rightarrow>
                                   (case py_getitem offers ''price'' of
                                      Inl e \<Rightarrow> Some (Inl e)
                                    | Inr p \<Rightarrow> Some (parse_price_json p))))))))"

definition extract_price :: "env \<Rightarrow> string \<Rightarrow> string \<Rightarrow> exn + rat option" where
  "extract_price E html_content url =
     (let soup = BeautifulSoup E html_content in
      case meta_loop soup meta_tags of
        Some r \<Rightarrow> r
      | None \<Rightarrow>
          (case soup_find soup ''span'' (''itemprop'', ''price'') of
             Some schema_price \<Rightarrow> Inr (parse_price (tag_text schema_price))
           | None \<Rightarrow>
               (case (case soup_find soup ''script'' (''type'', ''application/ld+json'') of
                        Some json_ld \<Rightarrow> json_ld_step E json_ld
                      | None \<Rightarrow> None) of
                  Some r \<Rightarrow> r
                | None \<Rightarrow> Inr (find_price_in_html soup))))"

subsection \<open>fetch\_price\<close>

definition user_agents :: "string list" where
  "user_agents =
    [''Mozilla/5.0 (Windows NT 10.0; Win64; x64) AppleWebKit/537.36 (KHTML, like Gecko) Chrome/91.0.4472.124 Safari/537.36'',
     ''Mozilla/5.0 (Windows NT 10.0; Win64; x64; rv:89.0) Gecko/20100101 Firefox/89.0'',
     ''Mozilla/5.0 (Macintosh; Intel Mac OS X 10_15_7) AppleWebKit/605.1.15 (KHTML, like Gecko) Version/14.1.1 Safari/605.1.15'']"

text \<open>\<open>get_random_headers r\<close>: the headers built when \<^verbatim>\<open>random.choice\<close> draws index
  \<open>r mod 3\<close> of the three user agents.\<close>

definition get_random_headers :: "nat \<Rightarrow> headers" where
  "get_random_headers r =
    [(''User-Agent'', user_agents ! (r mod 3)),
     (''Accept'', ''text/html,application/xhtml+xml,application/xml;q=0.9,image/webp,*/*;q=0.8''),
     (''Accept-Language'', ''en-US,en;q=0.5''),
     (''Referer'', ''https://www.google.com/''),
     (''DNT'', ''1''),
     (''Connection'', ''keep-alive''),
     (''Upgrade-Insecure-Requests'', ''1'')]"

text \<open>The headers of the first request.\<close>

definition first_headers :: headers where
  "first_headers =
    [(''User-Agent'', ''Mozilla/5.0 (Windows NT 10.0; Win64; x64) AppleWebKit/537.36 (KHTML, like Gecko) Chrome/91.0.4472.124 Safari/537.36'')]"

text \<open>
  The error half of the pair \<open>fetch_price\<close> returns. Each constructor is one of the four
  message formats of the source, with the exception whose text the message embeds:
  \<^verbatim>\<open>"Price not found on the page or below 1.01 euro"\<close>,
  \<^verbatim>\<open>"Error fetching URL (with bypass): ..."\<close>, \<^verbatim>\<open>"Error fetching URL: ..."\<close> and
  \<^verbatim>\<open>"Unexpected error: ..."\<close>.
\<close>

datatype fetch_error =
    PriceNotFound
  | ErrorFetchingBypass exn
  | ErrorFetching exn
  | UnexpectedError exn

type_synonym outcome = "rat option \<times> fetch_error option"

text \<open>\<^verbatim>\<open>except requests.exceptions.RequestException\<close> catches the exceptions of the requests
  library, \<open>HTTPError\<close> among them, and nothing else.\<close>

fun is_request_exception :: "exn \<Rightarrow> bool" where
  "is_request_exception (HTTPError status) = True"
| "is_request_exception (RequestException m) = True"
| "is_request_exception TypeError = False"
| "is_request_exception IndexError = False"
| "is_request_exception KeyError = False"
| "is_request_exception ZeroDivisionError = False"

text \<open>
  The body both \<^verbatim>\<open>try\<close> blocks share: the request, \<^verbatim>\<open>raise_for_status\<close> (which raises for
  the statuses 400 to 599), the extraction and the two returns. \<open>k\<close> is the number of
  requests made before this one.
\<close>

definition attempt :: "env \<Rightarrow> string \<Rightarrow> headers \<Rightarrow> nat \<Rightarrow> exn + outcome" where
  "attempt E url hs k =
     (case requests_get E k url hs of
        GetRaises m \<Rightarrow> Inl (RequestException m)
      | Response status text \<Rightarrow>
          if 400 \<le> status \<and> status < 600 then Inl (HTTPError status)
          else (case extract_price E text url of
                  Inl e \<Rightarrow> Inl e
                | Inr None \<Rightarrow> Inr (None, Some PriceNotFound)
                | Inr (Some price) \<Rightarrow> Inr (Some price, None)))"

text \<open>
  \<open>fetch_price E url sent\<close> takes the requests made so far and returns them extended by its
  own. An exception raised inside the handler of \<open>HTTPError\<close> that its inner handler does
  not catch leaves the function: the last \<^verbatim>\<open>except Exception\<close> guards the outer \<^verbatim>\<open>try\<close>
  body only.
\<close>

definition fetch_price ::
  "env \<Rightarrow> string \<Rightarrow> (string \<times> headers) list \<Rightarrow> (exn + outcome) \<times> (string \<times> headers) list" where
  "fetch_price E url sent =
     (let sent1 = sent @ [(url, first_headers)] in
      case attempt E url first_headers (length sent) of
        Inr out \<Rightarrow> (Inr out, sent1)
      | Inl (HTTPError status) \<Rightarrow>
          if status = 403 then
            (let hs = get_random_headers (random_choice E (length sent1));
                 sent2 = sent1 @ [(url, hs)]
             in case attempt E url hs (length sent1) of
                  Inr out \<Rightarrow> (Inr out, sent2)
                | Inl e \<Rightarrow>
                    if is_request_exception e
                    then (Inr (None, Some (ErrorFetchingBypass e)), sent2)
                    else (Inl e, sent2))
          else (Inr (None, Some (ErrorFetching (HTTPError status))), sent1)
      | Inl e \<Rightarrow> (Inr (None, Some (UnexpectedError e)), sent1))"

subsection \<open>compare\_prices\<close>

record product =
  url :: string
  competitors :: "string list"
  last_updated :: nat

text \<open>
  What a run changes outside its return value: the requests sent and the values passed
  to \<^verbatim>\<open>progress_bar.progress\<close>, both in order. \<open>events\<close> records how the two interleave:
  every value passed to the progress bar, and between them the URLs for which
  \<open>fetch_price\<close> has returned its pair.
\<close>

datatype event = Progress rat | Fetched string

record run_state =
  requests :: "(string \<times> headers) list"
  progress :: "rat list"
  events :: "event list"

type_synonym results = "(string \<times> rat option) list"
type_synonym errors = "(string \<times> fetch_error option) list"

fun competitor_loop ::
  "env \<Rightarrow> nat \<Rightarrow> nat \<Rightarrow> string list \<Rightarrow> results \<Rightarrow> errors \<Rightarrow> run_state
     \<Rightarrow> (exn + results \<times> errors) \<times> run_state" where
  "competitor_loop E total_urls i [] res errs st = (Inr (res, errs), st)"
| "competitor_loop E total_urls i (comp_url # rest) res errs st =
     (case fetch_price E comp_url (requests st) of
        (Inl e, sent) \<Rightarrow> (Inl e, st\<lparr>requests := sent\<rparr>)
      | (Inr (comp_price, comp_error), sent) \<Rightarrow>
          competitor_loop E total_urls (i + 1) rest
            (res @ [(comp_url, comp_price)]) (errs @ [(comp_url, comp_error)])
            (st\<lparr>requests := sent,
                progress := progress st @ [of_nat (i + 2) / of_nat total_urls],
                events := events st @ [Fetched comp_url,
                                       Progress (of_nat (i + 2) / of_nat total_urls)]\<rparr>))"

definition compare_prices ::
  "env \<Rightarrow> product \<Rightarrow> run_state \<Rightarrow> (exn + results \<times> errors) \<times> run_state" where
  "compare_prices E p st0 =
     (let total_urls = length (competitors p) + 1;
          st1 = st0\<lparr>progress := progress st0 @ [0], events := events st0 @ [Progress 0]\<rparr>
      in case fetch_price E (url p) (requests st1) of
           (Inl e, sent) \<Rightarrow> (Inl e, st1\<lparr>requests := sent\<rparr>)
         | (Inr (own_price, own_error), sent) \<Rightarrow>
             (let st2 = st1\<lparr>requests := sent,
                            progress := progress st1 @ [1 / of_nat total_urls],
                            events := events st1 @ [Fetched (url p),
                                                    Progress (1 / of_nat total_urls)]\<rparr>
              in case competitor_loop E total_urls 0 (competitors p)
                        [(url p, own_price)] [(url p, own_error)] st2 of
                   (Inl e, st3) \<Rightarrow> (Inl e, st3)
                 | (Inr r, st3) \<Rightarrow>
                     (Inr r, st3\<lparr>progress := progress st3 @ [1],
                                 events := events st3 @ [Progress 1]\<rparr>)))"

subsection \<open>analyze\_results\<close>

text \<open>
  The analysis text is built from formatted pieces; each constructor is one of the
  f-strings of the source with the values it interpolates (amounts are printed with two
  decimals there). \<open>UnableOwn\<close> is the whole text returned when the own price is missing.
\<close>

datatype piece =
    UnableOwn string "fetch_error option"
  | YourProduct string rat
  | CompUnable nat "fetch_error option"
  | CompMoreExpensive nat rat rat
  | CompCheaper nat rat rat
  | CompSame nat rat
  | LowestPrice
  | SameOrLower
  | CheaperThan nat nat
  | HigherThanAll
  | UnableToCompare

text \<open>The loop over the competitors, carrying the text and the two counters. Indexing
  \<open>errors\<close> out of range and dividing by a zero price raise.\<close>

fun analysis_loop ::
  "rat \<Rightarrow> errors \<Rightarrow> nat \<Rightarrow> results \<Rightarrow> piece list \<times> nat \<times> nat
     \<Rightarrow> exn + piece list \<times> nat \<times> nat" where
  "analysis_loop own_price errs i [] acc = Inr acc"
| "analysis_loop own_price errs i ((comp_url, comp_price) # rest)
       (analysis, cheaper_count, equal_count) =
     (case comp_price of
        None \<Rightarrow>
          if i + 1 < length errs
          then analysis_loop own_price errs (i + 1) rest
                 (analysis @ [CompUnable (i + 1) (snd (errs ! (i + 1)))],
                  cheaper_count, equal_count)
          else Inl IndexError
      | Some cp \<Rightarrow>
          if cp = 0 then Inl ZeroDivisionError
          else
            (let price_diff = own_price - cp;
                 percentage_diff = price_diff / cp * 100
             in if price_diff > 0
                then analysis_loop own_price errs (i + 1) rest
                       (analysis @ [CompMoreExpensive (i + 1) cp percentage_diff],
                        cheaper_count, equal_count)
                else if price_diff < 0
                then analysis_loop own_price errs (i + 1) rest
                       (analysis @ [CompCheaper (i + 1) cp \<bar>percentage_diff\<bar>],
                        cheaper_count + 1, equal_count)
                else analysis_loop own_price errs (i + 1) rest
                       (analysis @ [CompSame (i + 1) cp],
                        cheaper_count, equal_count + 1)))"

definition valid_count :: "results \<Rightarrow> nat" where
  "valid_count competitor_prices = length (filter (\<lambda>(u, price). price \<noteq> None) competitor_prices)"

definition aggregate :: "nat \<Rightarrow> nat \<Rightarrow> nat \<Rightarrow> piece" where
  "aggregate cheaper_count equal_count valid_competitor_count =
     (if valid_competitor_count > 0 then
        (if cheaper_count = valid_competitor_count then LowestPrice
         else if cheaper_count + equal_count = valid_competitor_count then SameOrLower
         else if cheaper_count > 0 then CheaperThan cheaper_count valid_competitor_count
         else HigherThanAll)
      else UnableToCompare)"

definition analyze_results :: "product \<Rightarrow> results \<Rightarrow> errors \<Rightarrow> exn + piece list" where
  "analyze_results p prices errs =
     (case prices of
        [] \<Rightarrow> Inl IndexError
      | (own_url, own_price) # competitor_prices \<Rightarrow>
          (case errs of
             [] \<Rightarrow> Inl IndexError
           | (err_url, own_error) # other_errors \<Rightarrow>
               (case own_price of
                  None \<Rightarrow> Inr [UnableOwn (url p) own_error]
                | Some own \<Rightarrow>
                    (case analysis_loop own errs 0 competitor_prices
                            ([YourProduct (url p) own], 0, 0) of
                       Inl e \<Rightarrow> Inl e
                     | Inr (analysis, cheaper_count, equal_count) \<Rightarrow>
                         Inr (analysis @
                              [aggregate cheaper_count equal_count
                                 (valid_count competitor_prices)])))))"

subsection \<open>The cascade as the specification words it\<close>

text \<open>The five searches \<open>extract_price\<close> makes, by name.\<close>

abbreviation meta_twitter :: "node list \<Rightarrow> node option" where
  "meta_twitter soup \<equiv> soup_find soup ''meta'' (''name'', ''twitter:data1'')"

abbreviation meta_og :: "node list \<Rightarrow> node option" where
  "meta_og soup \<equiv> soup_find soup ''meta'' (''property'', ''og:price:amount'')"

abbreviation meta_product :: "node list \<Rightarrow> node option" where
  "meta_product soup \<equiv> soup_find soup ''meta'' (''property'', ''product:price:amount'')"

abbreviation microdata :: "node list \<Rightarrow> node option" where
  "microdata soup \<equiv> soup_find soup ''span'' (''itemprop'', ''price'')"

abbreviation json_ld_script :: "node list \<Rightarrow> node option" where
  "json_ld_script soup \<equiv> soup_find soup ''script'' (''type'', ''application/ld+json'')"

text \<open>
  Each strategy on its own, yielding a normalized amount or no signal (\<open>None\<close>), and the
  cascade of the specification: the strategies in the fixed order, the first valid amount
  wins, no signal falls through to the next strategy. The meta-tag scan is one strategy:
  the content of the first of the three meta tags that is present goes to the normalizer.
\<close>

definition meta_tag_strategy :: "node list \<Rightarrow> rat option" where
  "meta_tag_strategy soup =
     (case (case meta_twitter soup of
              Some m \<Rightarrow> Some m
            | None \<Rightarrow> (case meta_og soup of Some m \<Rightarrow> Some m | None \<Rightarrow> meta_product soup)) of
        None \<Rightarrow> None
      | Some m \<Rightarrow> (case tag_get m ''content'' of None \<Rightarrow> None | Some c \<Rightarrow> parse_price c))"

definition microdata_strategy :: "node list \<Rightarrow> rat option" where
  "microdata_strategy soup =
     (case microdata soup of None \<Rightarrow> None | Some sp \<Rightarrow> parse_price (tag_text sp))"

definition json_ld_strategy :: "env \<Rightarrow> node list \<Rightarrow> rat option" where
  "json_ld_strategy E soup =
     (case json_ld_script soup of
        None \<Rightarrow> None
      | Some sc \<Rightarrow> (case json_ld_step E sc of Some (Inr (Some v)) \<Rightarrow> Some v | _ \<Rightarrow> None))"

definition positional_strategy :: "node list \<Rightarrow> rat option" where
  "positional_strategy soup =
     (case find_next_siblings ''h1'' soup of
        None \<Rightarrow> None
      | Some sibs \<Rightarrow> sibling_loop (take 5 sibs))"

definition class_name_strategy :: "node list \<Rightarrow> rat option" where
  "class_name_strategy soup = class_loop soup price_classes"

fun first_some :: "'a option list \<Rightarrow> 'a option" where
  "first_some [] = None"
| "first_some (None # rest) = first_some rest"
| "first_some (Some v # rest) = Some v"

definition first_valid_amount :: "env \<Rightarrow> node list \<Rightarrow> rat option" where
  "first_valid_amount E soup =
     first_some
       [meta_tag_strategy soup,
        microdata_strategy soup,
        json_ld_strategy E soup,
        positional_strategy soup,
        class_name_strategy soup]"

subsection \<open>The analysis as the specification words it\<close>

text \<open>
  The line reported for the competitor at position \<open>i\<close> (counted from 0): a fetch failure
  with its error, or the comparison of the own price with the competitor's: more
  expensive when the difference is positive, cheaper when it is negative, the same
  otherwise, with the magnitude of the percentage.
\<close>

fun competitor_piece :: "rat \<Rightarrow> errors \<Rightarrow> nat \<times> string \<times> rat option \<Rightarrow> piece" where
  "competitor_piece own errs (i, comp_url, None) = CompUnable (i + 1) (snd (errs ! (i + 1)))"
| "competitor_piece own errs (i, comp_url, Some cp) =
     (if own - cp > 0 then CompMoreExpensive (i + 1) cp ((own - cp) / cp * 100)
      else if own - cp < 0 then CompCheaper (i + 1) cp \<bar>(own - cp) / cp * 100\<bar>
      else CompSame (i + 1) cp)"

text \<open>The prices of the competitors that have one, in order.\<close>

fun valid_prices :: "results \<Rightarrow> rat list" where
  "valid_prices [] = []"
| "valid_prices ((comp_url, None) # rest) = valid_prices rest"
| "valid_prices ((comp_url, Some cp) # rest) = cp # valid_prices rest"

text \<open>
  The aggregate classification over the valid competitor prices: lowest price when the own
  price is below all of them, else same or lower when it is at most all of them, else
  cheaper than K of N when it is below at least one, else higher than all; unable to
  compare when there is none.
\<close>

definition aggregate_spec :: "rat \<Rightarrow> rat list \<Rightarrow> piece" where
  "aggregate_spec own vs =
     (if vs = [] then UnableToCompare
      else if list_all (\<lambda>c. own < c) vs then LowestPrice
      else if list_all (\<lambda>c. own \<le> c) vs then SameOrLower
      else if list_ex (\<lambda>c. own < c) vs
      then CheaperThan (length (filter (\<lambda>c. own < c) vs)) (length vs)
      else HigherThanAll)"

text \<open>The error descriptors a report embeds, in order.\<close>

fun piece_errors :: "piece \<Rightarrow> fetch_error option list" where
  "piece_errors (UnableOwn u e) = [e]"
| "piece_errors (CompUnable i e) = [e]"
| "piece_errors (YourProduct u v) = []"
| "piece_errors (CompMoreExpensive i c d) = []"
| "piece_errors (CompCheaper i c d) = []"
| "piece_errors (CompSame i c) = []"
| "piece_errors LowestPrice = []"
| "piece_errors SameOrLower = []"
| "piece_errors (CheaperThan k n) = []"
| "piece_errors HigherThanAll = []"
| "piece_errors UnableToCompare = []"

definition reported_errors :: "piece list \<Rightarrow> fetch_error option list" where
  "reported_errors report = concat (map piece_errors report)"

text \<open>The progress values a completed run over an own URL and \<open>n\<close> competitors passes to the
  progress bar: the initial 0, then \<open>k / (n + 1)\<close> after the \<open>k\<close>-th URL, then the final 1.\<close>

definition emitted_progress :: "nat \<Rightarrow> rat list" where
  "emitted_progress n = 0 # map (\<lambda>k. of_nat k / of_nat (n + 1)) [1 ..< n + 2] @ [1]"




subsection \<open>Concrete documents and a concrete network\<close>

text \<open>
  A parser, a decoder and a network fixed on a handful of pages, for evaluating the
  functions above. Each page is given with the tree \<^verbatim>\<open>html.parser\<close> builds for it and
  each script text with the value \<^verbatim>\<open>json.loads\<close> returns for it.
\<close>

definition page_meta_low_microdata :: string where
  "page_meta_low_microdata =
     ''<meta name=twitter:data1 content=0.50><span itemprop=price>19.99</span>''"

definition page_microdata :: string where
  "page_microdata = ''<span itemprop=price>19.99</span>''"

definition page_og_low_heading :: string where
  "page_og_low_heading =
     ''<meta property=og:price:amount content=0><h1>Item</h1><p>19.99</p>''"

definition page_meta_class :: string where
  "page_meta_class =
     ''<meta name=twitter:data1 content=24,95><p class=price>19.99</p>''"

definition page_empty_array :: string where
  "page_empty_array =
     ''<script type=application/ld+json>[]</script><p class=price>19.99</p>''"

definition page_bad_json :: string where
  "page_bad_json =
     ''<script type=application/ld+json>{offers</script><p class=price>19.99</p>''"

definition page_number_price :: string where
  \<open>page_number_price =
     ''<script type=application/ld+json>{"offers":{"price":19.99}}</script>''\<close>

definition page_meta_value :: string where
  "page_meta_value = ''<meta name=twitter:data1 value=19.99>''"

definition demo_parser :: "string \<Rightarrow> node list" where
  \<open>demo_parser html =
     (if html = page_meta_low_microdata then
        [Tag ''meta'' [(''name'', ''twitter:data1''), (''content'', ''0.50'')] [],
         Tag ''span'' [(''itemprop'', ''price'')] [NavigableString ''19.99'']]
      else if html = page_microdata then
        [Tag ''span'' [(''itemprop'', ''price'')] [NavigableString ''19.99'']]
      else if html = page_og_low_heading then
        [Tag ''meta'' [(''property'', ''og:price:amount''), (''content'', ''0'')] [],
         Tag ''h1'' [] [NavigableString ''Item''],
         Tag ''p'' [] [NavigableString ''19.99'']]
      else if html = page_meta_class then
        [Tag ''meta'' [(''name'', ''twitter:data1''), (''content'', ''24,95'')] [],
         Tag ''p'' [(''class'', ''price'')] [NavigableString ''19.99'']]
      else if html = page_empty_array then
        [Tag ''script'' [(''type'', ''application/ld+json'')] [SpecialString ''Script'' ''[]''],
         Tag ''p'' [(''class'', ''price'')] [NavigableString ''19.99'']]
      else if html = page_bad_json then
        [Tag ''script'' [(''type'', ''application/ld+json'')] [SpecialString ''Script'' ''{offers''],
         Tag ''p'' [(''class'', ''price'')] [NavigableString ''19.99'']]
      else if html = page_meta_value then
        [Tag ''meta'' [(''name'', ''twitter:data1''), (''value'', ''19.99'')] []]
      else if html = page_number_price then
        [Tag ''script'' [(''type'', ''application/ld+json'')]
           [SpecialString ''Script'' ''{"offers":{"price":19.99}}'']]
      else [])\<close>

definition demo_loads :: "string \<Rightarrow> json option" where
  \<open>demo_loads s =
     (if s = ''[]'' then Some (JArray [])
      else if s = ''{"offers":{"price":19.99}}''
      then Some (JObject [(''offers'', JObject [(''price'', JNumber (1999 / 100))])])
      else None)\<close>

text \<open>
  The network: \<^verbatim>\<open>/blocked\<close> answers 403 to the first headers and 200 with
  \<open>page_number_price\<close> to any others; \<^verbatim>\<open>/always-blocked\<close> always answers 403; \<^verbatim>\<open>/choices\<close>
  answers 300 with \<open>page_microdata\<close>; \<^verbatim>\<open>/missing\<close> answers 404; \<^verbatim>\<open>/down\<close> refuses the
  connection; \<^verbatim>\<open>/blocked-down\<close> answers 403 and then refuses the connection; \<^verbatim>\<open>/blocked-ok\<close>
  answers 403 to the first headers and 200 with \<open>page_microdata\<close> to any others;
  \<^verbatim>\<open>/blocked-empty\<close> answers 403 to the first headers and 200 with an empty page
  to any others;
  \<^verbatim>\<open>/item-n\<close> answers 200 with \<open>page_number_price\<close>; \<^verbatim>\<open>/item-a\<close>
  answers 200 with \<open>page_microdata\<close>, \<^verbatim>\<open>/item-b\<close> answers 200 with \<open>page_meta_class\<close>;
  every other URL answers 200 with an empty page.
\<close>

definition demo_get :: "nat \<Rightarrow> string \<Rightarrow> headers \<Rightarrow> get_result" where
  "demo_get k u hs =
     (if u = ''https://shop.example/blocked'' then
        (if hs = first_headers then Response 403 '''' else Response 200 page_number_price)
      else if u = ''https://shop.example/always-blocked'' then Response 403 ''''
      else if u = ''https://shop.example/choices'' then Response 300 page_microdata
      else if u = ''https://shop.example/missing'' then Response 404 ''''
      else if u = ''https://shop.example/down'' then GetRaises ''Connection refused''
      else if u = ''https://shop.example/blocked-down'' then
        (if hs = first_headers then Response 403 '''' else GetRaises ''Connection refused'')
      else if u = ''https://shop.example/blocked-ok'' then
        (if hs = first_headers then Response 403 '''' else Response 200 page_microdata)
      else if u = ''https://shop.example/blocked-empty'' then
        (if hs = first_headers then Response 403 '''' else Response 200 '''')
      else if u = ''https://shop.example/item-n'' then Response 200 page_number_price
      else if u = ''https://shop.example/item-a'' then Response 200 page_microdata
      else if u = ''https://shop.example/item-b'' then Response 200 page_meta_class
      else Response 200 [])"

definition demo_env :: env where
  "demo_env = \<lparr>BeautifulSoup = demo_parser, json_loads = demo_loads,
                requests_get = demo_get, random_choice = (\<lambda>k. k)\<rparr>"

text \<open>An environment in which every page parses to \<open>soup\<close> and every script text decodes
  to \<open>js\<close>; the network answers 200 with an empty text.\<close>

definition page_env :: "node list \<Rightarrow> json option \<Rightarrow> env" where
  "page_env soup js = \<lparr>BeautifulSoup = (\<lambda>html. soup), json_loads = (\<lambda>s. js),
                        requests_get = (\<lambda>k u hs. Response 200 []), random_choice = (\<lambda>k. 0)\<rparr>"

text \<open>
  Trees of further pages, each with the HTML it is the parse of:
  \<^verbatim>\<open><meta property=og:price:amount content=0><h1>Item</h1><p>19.99</p>\<close>,
  \<^verbatim>\<open><meta property=product:price:amount content=free><p class=price>19.99</p>\<close>,
  \<^verbatim>\<open><span itemprop=price>0,99</span><p class=price>19.99</p>\<close>,
  \<^verbatim>\<open><script type=application/ld+json>J</script><p class=price>19.99</p>\<close> for a script
  text \<^verbatim>\<open>J\<close>, and
  \<^verbatim>\<open><h1>Item</h1><p>only today</p><p>19,99</p><p class=price>24.95</p>\<close>.
\<close>

definition soup_og_low :: "node list" where
  "soup_og_low =
     [Tag ''meta'' [(''property'', ''og:price:amount''), (''content'', ''0'')] [],
      Tag ''h1'' [] [NavigableString ''Item''],
      Tag ''p'' [] [NavigableString ''19.99'']]"

definition soup_product_low :: "node list" where
  "soup_product_low =
     [Tag ''meta'' [(''property'', ''product:price:amount''), (''content'', ''free'')] [],
      Tag ''p'' [(''class'', ''price'')] [NavigableString ''19.99'']]"

definition soup_microdata_low :: "node list" where
  "soup_microdata_low =
     [Tag ''span'' [(''itemprop'', ''price'')] [NavigableString ''0,99''],
      Tag ''p'' [(''class'', ''price'')] [NavigableString ''19.99'']]"

definition soup_json_ld :: "node list" where
  "soup_json_ld =
     [Tag ''script'' [(''type'', ''application/ld+json'')] [SpecialString ''Script'' ''J''],
      Tag ''p'' [(''class'', ''price'')] [NavigableString ''19.99'']]"

definition soup_heading :: "node list" where
  "soup_heading =
     [Tag ''h1'' [] [NavigableString ''Item''],
      Tag ''p'' [] [NavigableString ''only today''],
      Tag ''p'' [] [NavigableString ''19,99''],
      Tag ''p'' [(''class'', ''price'')] [NavigableString ''24.95'']]"

text \<open>The value of \<^verbatim>\<open>{"offers": {"price": "0.00"}}\<close>.\<close>

definition json_offer_low :: json where
  "json_offer_low = JObject [(''offers'', JObject [(''price'', JString ''0.00'')])]"

text \<open>Three runs over the concrete network, from an initial state with nothing sent and no
  progress reported.\<close>

definition demo_product :: product where
  "demo_product = \<lparr>url = ''https://shop.example/item-a'',
                    competitors = [''https://shop.example/item-b'', ''https://shop.example/missing''],
                    last_updated = 0\<rparr>"

definition demo_product_down :: product where
  "demo_product_down = \<lparr>url = ''https://shop.example/down'',
                         competitors = [''https://shop.example/missing'', ''https://shop.example/item-a''],
                         last_updated = 0\<rparr>"

definition demo_product_blocked :: product where
  "demo_product_blocked = \<lparr>url = ''https://shop.example/item-a'',
                            competitors = [''https://shop.example/blocked'', ''https://shop.example/item-b''],
                            last_updated = 0\<rparr>"

definition initial_state :: run_state where
  "initial_state = \<lparr>requests = [], progress = [], events = []\<rparr>"

subsection \<open>Evaluation\<close>

text \<open>The defining equations the simplifier unfolds to evaluate the functions on the
  concrete documents.\<close>

lemmas eval_defs =
  parse_price_def float_of_str_def is_digit_def digit_value_def is_space_def strip_def
  interesting_string_types_def soup_find_def soup_find_class_def extract_price_from_element_def price_classes_def
  find_price_in_html_def meta_tags_def json_ld_step_def extract_price_def
  meta_tag_strategy_def microdata_strategy_def json_ld_strategy_def positional_strategy_def
  class_name_strategy_def first_valid_amount_def
  page_meta_low_microdata_def page_microdata_def page_og_low_heading_def page_meta_class_def
  page_empty_array_def page_bad_json_def page_number_price_def page_meta_value_def
  demo_parser_def
  demo_loads_def demo_get_def demo_env_def page_env_def
  soup_og_low_def soup_product_low_def soup_microdata_low_def soup_json_ld_def
  soup_heading_def json_offer_low_def Let_def

lemmas net_defs =
  attempt_def fetch_price_def compare_prices_def first_headers_def get_random_headers_def
  user_agents_def demo_product_def demo_product_down_def demo_product_blocked_def
  initial_state_def

subsection \<open>Properties of parse\_price\<close>

lemma parse_price_ge: "parse_price s = Some v \<Longrightarrow> v \<ge> 101 / 100"
  by (auto simp: parse_price_def Let_def split: option.splits if_splits)

subsection \<open>The extraction cascade\<close>

lemma meta_loop_meta_tags:
  "meta_loop soup meta_tags =
     (case meta_twitter soup of
        Some m \<Rightarrow> Some (parse_price_attr (tag_get m ''content''))
      | None \<Rightarrow>
         (case meta_og soup of
            Some m \<Rightarrow> Some (parse_price_attr (tag_get m ''content''))
          | None \<Rightarrow>
             (case meta_product soup of
                Some m \<Rightarrow> Some (parse_price_attr (tag_get m ''content''))
              | None \<Rightarrow> None)))"
  by (simp add: meta_tags_def split: option.splits)













subsection \<open>Exceptions of the JSON-LD step\<close>

lemma json_decode_error_falls_through:
  assumes "tag_string sc = Some s" and "json_loads E s = None"
  shows "json_ld_step E sc = None"
  using assms by (simp add: json_ld_step_def)

text \<open>
  Claim C8 fails on the code. A JSON-LD script whose text is the empty array \<^verbatim>\<open>[]\<close> parses
  as JSON to a value without an \<^verbatim>\<open>offers.price\<close>; \<open>extract_price\<close> raises \<^verbatim>\<open>IndexError\<close>
  on it instead of reaching the heuristic extractor, which finds 19.99 on that page. A
  numeric \<^verbatim>\<open>offers.price\<close> raises \<^verbatim>\<open>TypeError\<close>. Only a script that fails to decode is
  skipped, as the third page shows.
\<close>

theorem unusable_json_ld_raises:
  "extract_price demo_env page_empty_array ''https://shop.example/item-e'' = Inl IndexError
   \<and> find_price_in_html (demo_parser page_empty_array) = Some (1999 / 100)
   \<and> extract_price demo_env page_number_price ''https://shop.example/item-f'' = Inl TypeError
   \<and> extract_price demo_env page_bad_json ''https://shop.example/item-g'' = Inr (Some (1999 / 100))"
  by (simp add: eval_defs)

subsection \<open>Amounts are at least 1.01\<close>

lemma sibling_loop_ge: "sibling_loop sibs = Some v \<Longrightarrow> v \<ge> 101 / 100"
  by (induction sibs)
     (auto simp: Let_def extract_price_from_element_def dest: parse_price_ge split: if_splits)

lemma class_loop_ge: "class_loop soup cns = Some v \<Longrightarrow> v \<ge> 101 / 100"
  by (induction cns)
     (auto simp: Let_def extract_price_from_element_def dest: parse_price_ge
           split: if_splits option.splits)

lemma find_price_in_html_ge: "find_price_in_html soup = Some v \<Longrightarrow> v \<ge> 101 / 100"
  by (auto simp: find_price_in_html_def dest: sibling_loop_ge class_loop_ge
           split: option.splits)

lemma parse_price_json_ge: "parse_price_json j = Inr (Some v) \<Longrightarrow> v \<ge> 101 / 100"
  by (cases j) (auto dest: parse_price_ge)

lemma parse_price_attr_ge: "parse_price_attr a = Inr (Some v) \<Longrightarrow> v \<ge> 101 / 100"
  by (cases a) (auto dest: parse_price_ge)

lemma json_ld_step_ge: "json_ld_step E sc = Some (Inr (Some v)) \<Longrightarrow> v \<ge> 101 / 100"
  by (auto simp: json_ld_step_def dest: parse_price_json_ge
           split: option.splits sum.splits bool.splits)

lemma extract_price_ge: "extract_price E html u = Inr (Some v) \<Longrightarrow> v \<ge> 101 / 100"
  by (auto simp: extract_price_def Let_def meta_loop_meta_tags
           dest: parse_price_attr_ge parse_price_ge json_ld_step_ge find_price_in_html_ge
           split: option.splits)

lemma attempt_outcome:
  assumes "attempt E u hs k = Inr (pr, er)"
  shows "(pr = None) \<noteq> (er = None) \<and> (case pr of None \<Rightarrow> True | Some v \<Rightarrow> v \<ge> 101 / 100)"
  using assms
  by (auto simp: attempt_def dest: extract_price_ge
           split: get_result.splits if_splits sum.splits option.splits)

lemma fetch_price_outcome:
  assumes "fetch_price E u sent = (Inr (pr, er), sent')"
  shows "(pr = None) \<noteq> (er = None) \<and> (case pr of None \<Rightarrow> True | Some v \<Rightarrow> v \<ge> 101 / 100)"
proof -
  have "(\<exists>hs k. attempt E u hs k = Inr (pr, er)) \<or> (pr = None \<and> er \<noteq> None)"
    using assms
    by (auto simp: fetch_price_def Let_def split: sum.splits exn.splits if_splits)
  then show ?thesis
  proof
    assume "\<exists>hs k. attempt E u hs k = Inr (pr, er)"
    then obtain hs k where a: "attempt E u hs k = Inr (pr, er)" by blast
    from attempt_outcome [OF a] show ?thesis .
  next
    assume "pr = None \<and> er \<noteq> None"
    then show ?thesis by auto
  qed
qed


subsection \<open>The analysis loop in closed form\<close>

lemma analysis_loop_closed_form:
  assumes "i + length rest < length errs \<or> rest = []" and "0 \<notin> set (valid_prices rest)"
  shows "analysis_loop own errs i rest (a, c, e) =
           Inr (a @ map (competitor_piece own errs) (zip [i ..< i + length rest] rest),
                c + length (filter (\<lambda>cp. own < cp) (valid_prices rest)),
                e + length (filter (\<lambda>cp. own = cp) (valid_prices rest)))"
  using assms
proof (induction rest arbitrary: i a c e)
  case Nil
  then show ?case by simp
next
  case (Cons x rest)
  obtain u pr where x: "x = (u, pr)" by (cases x)
  have range: "Suc i + length rest < length errs \<or> rest = []" using Cons.prems(1) by auto
  have i1: "i + 1 < length errs" using Cons.prems(1) by auto
  show ?case
  proof (cases pr)
    case None
    with x Cons.prems have nz: "0 \<notin> set (valid_prices rest)" by simp
    show ?thesis
      using Cons.IH [OF range nz] i1 x None
      by (simp add: upt_conv_Cons del: upt_Suc)
  next
    case (Some cp)
    with x Cons.prems have nz: "0 \<notin> set (valid_prices rest)" and cp0: "cp \<noteq> 0" by auto
    show ?thesis
      using Cons.IH [OF range nz] i1 x Some cp0
      by (auto simp add: upt_conv_Cons Let_def simp del: upt_Suc)
  qed
qed

lemma valid_count_valid_prices: "valid_count cps = length (valid_prices cps)"
  unfolding valid_count_def
  by (induction cps rule: valid_prices.induct) auto

lemma aggregate_counts:
  "aggregate (length (filter (\<lambda>c. own < c) vs)) (length (filter (\<lambda>c. own = c) vs)) (length vs)
     = aggregate_spec own vs"
proof -
  let ?ch = "length (filter (\<lambda>c. own < c) vs)" and ?eq = "length (filter (\<lambda>c. own = c) vs)"
  have le: "?ch + ?eq = length (filter (\<lambda>c. own \<le> c) vs)"
    by (induction vs) auto
  have a: "(?ch = length vs) = list_all (\<lambda>c. own < c) vs"
    by (metis (mono_tags, lifting) filter_True length_filter_less less_irrefl list_all_iff filter_id_conv)
  have b: "(length (filter (\<lambda>c. own \<le> c) vs) = length vs) = list_all (\<lambda>c. own \<le> c) vs"
    by (metis (mono_tags, lifting) filter_True length_filter_less less_irrefl list_all_iff filter_id_conv)
  have c: "(?ch > 0) = list_ex (\<lambda>c. own < c) vs"
    by (simp add: list_ex_iff filter_empty_conv)
  show ?thesis
    by (simp add: aggregate_def aggregate_spec_def a [symmetric] b [symmetric] c [symmetric] le)
qed

lemma analyze_results_closed_form:
  assumes "length cps < length errs" and "0 \<notin> set (valid_prices cps)"
  shows "analyze_results p ((own_url, Some own) # cps) errs =
           Inr (YourProduct (url p) own
                # map (competitor_piece own errs) (zip [0 ..< length cps] cps)
                @ [aggregate_spec own (valid_prices cps)])"
proof -
  from assms(1) obtain eu oe es where errs: "errs = (eu, oe) # es"
    by (cases errs) auto
  have range: "0 + length cps < length errs \<or> cps = []" using assms(1) by simp
  show ?thesis
    using analysis_loop_closed_form [OF range assms(2), of own "[YourProduct (url p) own]" 0 0]
    by (simp add: analyze_results_def errs valid_count_valid_prices aggregate_counts)
qed


subsection \<open>The aggregate classification\<close>

text \<open>
  Claim C2. When the own price is present (and the outcome set is one \<open>compare_prices\<close>
  can produce: an error entry for every URL, no competitor price equal to zero), the
  report is the own-price line, one line per competitor and the aggregate over the
  competitors with a valid price: lowest price iff the own price is below every valid
  competitor price, else same or lower iff it is at most every one of them, else cheaper
  than K of N iff it is below at least one, else higher than all; unable to compare when
  no competitor has a valid price. Own price 10.00 against 12.00, 10.00 and 9.00 gives
  cheaper, equal, more expensive and the aggregate cheaper than 1 of 3.
\<close>

theorem analyze_results_aggregate:
  assumes "length cps < length errs" and "0 \<notin> set (valid_prices cps)"
  shows
   "analyze_results p ((own_url, Some own) # cps) errs =
      Inr (YourProduct (url p) own
           # map (competitor_piece own errs) (zip [0 ..< length cps] cps)
           @ [aggregate_spec own (valid_prices cps)])
    \<and> analyze_results \<lparr>url = ''own'', competitors = [''a'', ''b'', ''c''], last_updated = 0\<rparr>
        [(''own'', Some 10), (''a'', Some 12), (''b'', Some 10), (''c'', Some 9)]
        [(''own'', None), (''a'', None), (''b'', None), (''c'', None)] =
      Inr [YourProduct ''own'' 10, CompCheaper 1 12 (50 / 3), CompSame 2 10,
           CompMoreExpensive 3 9 (100 / 9), CheaperThan 1 3]"
proof -
  have ex: "analyze_results \<lparr>url = ''own'', competitors = [''a'', ''b'', ''c''], last_updated = 0\<rparr>
        [(''own'', Some 10), (''a'', Some 12), (''b'', Some 10), (''c'', Some 9)]
        [(''own'', None), (''a'', None), (''b'', None), (''c'', None)] =
      Inr [YourProduct ''own'' 10, CompCheaper 1 12 (50 / 3), CompSame 2 10,
           CompMoreExpensive 3 9 (100 / 9), CheaperThan 1 3]"
    by (simp add: analyze_results_def valid_count_def aggregate_def)
  from analyze_results_closed_form [OF assms] ex show ?thesis by blast
qed

theorem analyze_results_aggregate_witness:
  "analyze_results \<lparr>url = ''own'', competitors = [''a'', ''b''], last_updated = 0\<rparr>
        [(''own'', Some 8), (''a'', Some 10), (''b'', Some 9)]
        [(''own'', None), (''a'', None), (''b'', None)] =
      Inr [YourProduct ''own'' 8, CompCheaper 1 10 20, CompCheaper 2 9 (100 / 9), LowestPrice]
   \<and> analyze_results \<lparr>url = ''own'', competitors = [''a'', ''b''], last_updated = 0\<rparr>
        [(''own'', Some 10), (''a'', Some 10), (''b'', Some 9)]
        [(''own'', None), (''a'', None), (''b'', None)] =
      Inr [YourProduct ''own'' 10, CompSame 1 10, CompMoreExpensive 2 9 (100 / 9), HigherThanAll]
   \<and> analyze_results \<lparr>url = ''own'', competitors = [''a'', ''b''], last_updated = 0\<rparr>
        [(''own'', Some 10), (''a'', Some 10), (''b'', None)]
        [(''own'', None), (''a'', None), (''b'', Some PriceNotFound)] =
      Inr [YourProduct ''own'' 10, CompSame 1 10, CompUnable 2 (Some PriceNotFound), SameOrLower]
   \<and> analyze_results \<lparr>url = ''own'', competitors = [''a''], last_updated = 0\<rparr>
        [(''own'', Some 10), (''a'', None)]
        [(''own'', None), (''a'', Some PriceNotFound)] =
      Inr [YourProduct ''own'' 10, CompUnable 1 (Some PriceNotFound), UnableToCompare]"
proof -
  let ?P = "\<lparr>url = ''own'', competitors = [''a'', ''b''], last_updated = 0\<rparr>"
  let ?Q = "\<lparr>url = ''own'', competitors = [''a''], last_updated = 0\<rparr>"
  have a: "analyze_results ?P
        [(''own'', Some 8), (''a'', Some 10), (''b'', Some 9)]
        [(''own'', None), (''a'', None), (''b'', None)] =
      Inr [YourProduct ''own'' 8, CompCheaper 1 10 20, CompCheaper 2 9 (100 / 9), LowestPrice]"
    using analyze_results_aggregate
      [of "[(''a'', Some 10), (''b'', Some 9)]" "[(''own'', None), (''a'', None), (''b'', None)]"
          ?P "''own''" 8]
    by (simp add: aggregate_spec_def upt_conv_Cons)
  have b: "analyze_results ?P
        [(''own'', Some 10), (''a'', Some 10), (''b'', Some 9)]
        [(''own'', None), (''a'', None), (''b'', None)] =
      Inr [YourProduct ''own'' 10, CompSame 1 10, CompMoreExpensive 2 9 (100 / 9), HigherThanAll]"
    using analyze_results_aggregate
      [of "[(''a'', Some 10), (''b'', Some 9)]" "[(''own'', None), (''a'', None), (''b'', None)]"
          ?P "''own''" 10]
    by (simp add: aggregate_spec_def upt_conv_Cons)
  have c: "analyze_results ?P
        [(''own'', Some 10), (''a'', Some 10), (''b'', None)]
        [(''own'', None), (''a'', None), (''b'', Some PriceNotFound)] =
      Inr [YourProduct ''own'' 10, CompSame 1 10, CompUnable 2 (Some PriceNotFound), SameOrLower]"
    using analyze_results_aggregate
      [of "[(''a'', Some 10), (''b'', None)]"
          "[(''own'', None), (''a'', None), (''b'', Some PriceNotFound)]" ?P "''own''" 10]
    by (simp add: aggregate_spec_def upt_conv_Cons)
  have d: "analyze_results ?Q
        [(''own'', Some 10), (''a'', None)]
        [(''own'', None), (''a'', Some PriceNotFound)] =
      Inr [YourProduct ''own'' 10, CompUnable 1 (Some PriceNotFound), UnableToCompare]"
    using analyze_results_aggregate
      [of "[(''a'', None)]" "[(''own'', None), (''a'', Some PriceNotFound)]" ?Q "''own''" 10]
    by (simp add: aggregate_spec_def upt_conv_Cons)
  from a b c d show ?thesis by blast
qed

subsection \<open>The loop over the competitors\<close>

lemma map_upt_Suc_head: "map f [a ..< a + Suc n] = f a # map f [Suc a ..< Suc a + n]"
  using upt_conv_Cons [of a "a + Suc n"] by simp

lemma competitor_loop_returns:
  assumes "competitor_loop E t i cs res errs st = (Inr (res', errs'), st')"
  shows "\<exists>rs es. res' = res @ rs \<and> errs' = errs @ es
           \<and> map fst rs = cs \<and> map fst es = cs
           \<and> list_all (\<lambda>r. case snd r of None \<Rightarrow> True | Some v \<Rightarrow> v \<ge> 101 / 100) rs
           \<and> progress st' = progress st @ map (\<lambda>k. of_nat k / of_nat t) [i + 2 ..< i + 2 + length cs]"
  using assms
proof (induction cs arbitrary: i res errs st)
  case Nil
  then show ?case by simp
next
  case (Cons c cs)
  let ?f = "\<lambda>k. (of_nat k :: rat) / of_nat t"
  obtain r sent where f: "fetch_price E c (requests st) = (r, sent)"
    by (cases "fetch_price E c (requests st)")
  from Cons.prems f obtain pr er where r: "r = Inr (pr, er)"
    by (cases r) auto
  let ?st = "st\<lparr>requests := sent, progress := progress st @ [?f (i + 2)],
                 events := events st @ [Fetched c, Progress (?f (i + 2))]\<rparr>"
  from Cons.prems f r
  have step: "competitor_loop E t (i + 1) cs (res @ [(c, pr)]) (errs @ [(c, er)]) ?st
                = (Inr (res', errs'), st')"
    by simp
  from Cons.IH [OF step] obtain rs es where
    IH: "res' = (res @ [(c, pr)]) @ rs" "errs' = (errs @ [(c, er)]) @ es"
        "map fst rs = cs" "map fst es = cs"
        "list_all (\<lambda>r. case snd r of None \<Rightarrow> True | Some v \<Rightarrow> v \<ge> 101 / 100) rs"
        "progress st' = progress ?st @ map ?f [i + 1 + 2 ..< i + 1 + 2 + length cs]"
    by blast
  from fetch_price_outcome [OF f [unfolded r]]
  have ok: "case pr of None \<Rightarrow> True | Some v \<Rightarrow> v \<ge> 101 / 100" by simp
  have idx: "i + 1 + 2 = Suc (i + 2)" by simp
  have len: "length (c # cs) = Suc (length cs)" by simp
  have e: "map ?f [i + 2 ..< i + 2 + length (c # cs)]
             = ?f (i + 2) # map ?f [i + 1 + 2 ..< i + 1 + 2 + length cs]"
    unfolding idx len by (rule map_upt_Suc_head)
  have "progress st' = (progress st @ [?f (i + 2)]) @ map ?f [i + 1 + 2 ..< i + 1 + 2 + length cs]"
    using IH(6) by simp
  also have "\<dots> = progress st @ map ?f [i + 2 ..< i + 2 + length (c # cs)]"
    unfolding e by simp
  finally have pg: "progress st' = progress st @ map ?f [i + 2 ..< i + 2 + length (c # cs)]" .
  have "res' = res @ ((c, pr) # rs) \<and> errs' = errs @ ((c, er) # es)
        \<and> map fst ((c, pr) # rs) = c # cs \<and> map fst ((c, er) # es) = c # cs
        \<and> list_all (\<lambda>r. case snd r of None \<Rightarrow> True | Some v \<Rightarrow> v \<ge> 101 / 100) ((c, pr) # rs)
        \<and> progress st' = progress st @ map ?f [i + 2 ..< i + 2 + length (c # cs)]"
    using IH(1-5) ok pg by simp
  then show ?case by (rule_tac x = "(c, pr) # rs" in exI, rule_tac x = "(c, er) # es" in exI)
qed



lemma emitted_progress_unfold:
  "emitted_progress n =
     [0, 1 / of_nat (n + 1)] @ map (\<lambda>k. of_nat k / of_nat (n + 1)) [0 + 2 ..< 0 + 2 + n] @ [1]"
proof -
  have "[1 ..< n + 2] = 1 # [0 + 2 ..< 0 + 2 + n]"
    using upt_conv_Cons [of 1 "n + 2"] by (simp add: numeral_2_eq_2)
  then show ?thesis by (simp add: emitted_progress_def)
qed

lemma compare_prices_returns:
  assumes "compare_prices E p st = (Inr (res, errs), st')"
  shows "\<exists>own_price own_error rs es.
           res = (url p, own_price) # rs \<and> errs = (url p, own_error) # es
           \<and> map fst rs = competitors p \<and> map fst es = competitors p
           \<and> (own_price = None) \<noteq> (own_error = None)
           \<and> list_all (\<lambda>r. case snd r of None \<Rightarrow> True | Some v \<Rightarrow> v \<ge> 101 / 100)
                ((url p, own_price) # rs)
           \<and> progress st' = progress st @ emitted_progress (length (competitors p))"
proof -
  let ?n = "length (competitors p)"
  let ?f = "\<lambda>k. (of_nat k :: rat) / of_nat (?n + 1)"
  let ?st1 = "st\<lparr>progress := progress st @ [0], events := events st @ [Progress 0]\<rparr>"
  obtain r sent where f: "fetch_price E (url p) (requests ?st1) = (r, sent)"
    by (cases "fetch_price E (url p) (requests ?st1)")
  from assms f obtain own_price own_error where r: "r = Inr (own_price, own_error)"
    by (cases r) (auto simp: compare_prices_def Let_def)
  let ?st2 = "?st1\<lparr>requests := sent, progress := progress ?st1 @ [1 / of_nat (?n + 1)],
                    events := events ?st1 @ [Fetched (url p), Progress (1 / of_nat (?n + 1))]\<rparr>"
  obtain r3 st3 where l: "competitor_loop E (?n + 1) 0 (competitors p)
                            [(url p, own_price)] [(url p, own_error)] ?st2 = (r3, st3)"
    by (cases "competitor_loop E (?n + 1) 0 (competitors p)
                 [(url p, own_price)] [(url p, own_error)] ?st2")
  from assms f r l have r3: "r3 = Inr (res, errs)" and st': "st' = st3\<lparr>progress := progress st3 @ [1], events := events st3 @ [Progress 1]\<rparr>"
    by (auto simp: compare_prices_def Let_def split: sum.splits)
  from competitor_loop_returns [OF l [unfolded r3]] obtain rs es where
    L: "res = [(url p, own_price)] @ rs" "errs = [(url p, own_error)] @ es"
       "map fst rs = competitors p" "map fst es = competitors p"
       "list_all (\<lambda>r. case snd r of None \<Rightarrow> True | Some v \<Rightarrow> v \<ge> 101 / 100) rs"
       "progress st3 = progress ?st2 @ map ?f [0 + 2 ..< 0 + 2 + ?n]"
    by blast
  from fetch_price_outcome [OF f [unfolded r]]
  have ok: "(own_price = None) \<noteq> (own_error = None)"
           "case own_price of None \<Rightarrow> True | Some v \<Rightarrow> v \<ge> 101 / 100"
    by simp_all
  have "progress st' = progress st @ ([0, 1 / of_nat (?n + 1)] @ map ?f [0 + 2 ..< 0 + 2 + ?n] @ [1])"
    using L(6) st' by simp
  then have pg: "progress st' = progress st @ emitted_progress ?n"
    by (simp only: emitted_progress_unfold)
  have "res = (url p, own_price) # rs \<and> errs = (url p, own_error) # es
           \<and> map fst rs = competitors p \<and> map fst es = competitors p
           \<and> (own_price = None) \<noteq> (own_error = None)
           \<and> list_all (\<lambda>r. case snd r of None \<Rightarrow> True | Some v \<Rightarrow> v \<ge> 101 / 100)
                ((url p, own_price) # rs)
           \<and> progress st' = progress st @ emitted_progress ?n"
    using L(1-5) ok pg by simp
  then show ?thesis
    by (rule_tac x = own_price in exI, rule_tac x = own_error in exI,
        rule_tac x = rs in exI, rule_tac x = es in exI)
qed

lemma valid_prices_ge:
  "list_all (\<lambda>r. case snd r of None \<Rightarrow> True | Some v \<Rightarrow> v \<ge> 101 / 100) rs
     \<Longrightarrow> v \<in> set (valid_prices rs) \<Longrightarrow> v \<ge> 101 / 100"
  by (induction rs rule: valid_prices.induct) auto

lemma compare_then_analyze:
  assumes "compare_prices E p st = (Inr (res, errs), st')"
  shows "\<exists>report. analyze_results p res errs = Inr report"
proof -
  from compare_prices_returns [OF assms] obtain own_price own_error rs es where
    R: "res = (url p, own_price) # rs" "errs = (url p, own_error) # es"
       "map fst rs = competitors p" "map fst es = competitors p"
       "list_all (\<lambda>r. case snd r of None \<Rightarrow> True | Some v \<Rightarrow> v \<ge> 101 / 100)
          ((url p, own_price) # rs)"
    by blast
  show ?thesis
  proof (cases own_price)
    case None
    then show ?thesis using R(1,2) by (simp add: analyze_results_def)
  next
    case (Some own)
    have "length rs = length es" using R(3,4) by (metis length_map)
    then have len: "length rs < length errs" using R(2) by simp
    have nz: "0 \<notin> set (valid_prices rs)"
    proof
      assume "0 \<in> set (valid_prices rs)"
      with valid_prices_ge [of rs 0] R(5) have "(0::rat) \<ge> 101 / 100" by simp
      then show False by simp
    qed
    from analyze_results_closed_form [OF len nz, of p "url p" own] show ?thesis
      using R(1) Some by simp
  qed
qed


subsection \<open>Three runs\<close>


lemma demo_run_down:
  "compare_prices demo_env demo_product_down initial_state =
     (Inr ([(''https://shop.example/down'', None),
            (''https://shop.example/missing'', None),
            (''https://shop.example/item-a'', Some (1999 / 100))],
           [(''https://shop.example/down'', Some (UnexpectedError (RequestException ''Connection refused''))),
            (''https://shop.example/missing'', Some (ErrorFetching (HTTPError 404))),
            (''https://shop.example/item-a'', None)]),
      \<lparr>requests = [(''https://shop.example/down'', first_headers),
                    (''https://shop.example/missing'', first_headers),
                    (''https://shop.example/item-a'', first_headers)],
        progress = [0, 1 / 3, 2 / 3, 1, 1],
        events = [Progress 0, Fetched ''https://shop.example/down'', Progress (1 / 3),
                  Fetched ''https://shop.example/missing'', Progress (2 / 3),
                  Fetched ''https://shop.example/item-a'', Progress 1, Progress 1]\<rparr>)"
  by (simp add: eval_defs net_defs)

lemma demo_run_blocked:
  "compare_prices demo_env demo_product_blocked initial_state =
     (Inl TypeError,
      \<lparr>requests = [(''https://shop.example/item-a'', first_headers),
                    (''https://shop.example/blocked'', first_headers),
                    (''https://shop.example/blocked'', get_random_headers 2)],
        progress = [0, 1 / 3],
        events = [Progress 0, Fetched ''https://shop.example/item-a'', Progress (1 / 3)]\<rparr>)"
  by (simp add: eval_defs net_defs)


subsection \<open>No zero divisor in the analysis\<close>

text \<open>
  Claim C9 fails on the code: not every HTML input yields "not found" or an amount. On
  a page whose JSON-LD \<^verbatim>\<open>offers.price\<close> is the number 19.99, and on a page whose
  \<^verbatim>\<open>twitter:data1\<close> meta tag has a \<^verbatim>\<open>value\<close> and no \<^verbatim>\<open>content\<close> attribute, \<open>extract_price\<close>
  raises \<^verbatim>\<open>TypeError\<close> and returns nothing.
\<close>

theorem extraction_returns_nothing:
  "extract_price demo_env page_number_price ''https://shop.example/item-n'' = Inl TypeError
   \<and> extract_price demo_env page_meta_value ''https://shop.example/item-v'' = Inl TypeError"
  by (simp add: eval_defs)

text \<open>
  What holds is the invariant on the values that are returned: an amount returned by
  \<open>extract_price\<close> or by \<open>fetch_price\<close> is at least 1.01, hence neither zero nor negative;
  no price in the results of a completed run is zero, and \<open>analyze_results\<close> on those
  results raises nothing (no division by zero in the percentage) and returns a report.
\<close>

lemma returned_amounts_at_least_minimum:
  "(extract_price E html u = Inr (Some v) \<longrightarrow> v \<ge> 101 / 100 \<and> v > 0)
   \<and> (fetch_price E u sent = (Inr (Some v, er), sent') \<longrightarrow> v \<ge> 101 / 100 \<and> v > 0)
   \<and> (compare_prices E p st = (Inr (res, errs), st')
        \<longrightarrow> 0 \<notin> set (valid_prices res)
            \<and> (\<exists>report. analyze_results p res errs = Inr report))"
proof -
  have a: "extract_price E html u = Inr (Some v) \<longrightarrow> v \<ge> 101 / 100 \<and> v > 0"
  proof
    assume "extract_price E html u = Inr (Some v)"
    from extract_price_ge [OF this] show "v \<ge> 101 / 100 \<and> v > 0" by simp
  qed
  have c: "fetch_price E u sent = (Inr (Some v, er), sent') \<longrightarrow> v \<ge> 101 / 100 \<and> v > 0"
  proof
    assume "fetch_price E u sent = (Inr (Some v, er), sent')"
    from fetch_price_outcome [OF this] show "v \<ge> 101 / 100 \<and> v > 0" by simp
  qed
  have d: "compare_prices E p st = (Inr (res, errs), st')
        \<longrightarrow> 0 \<notin> set (valid_prices res)
            \<and> (\<exists>report. analyze_results p res errs = Inr report)"
  proof
    assume run: "compare_prices E p st = (Inr (res, errs), st')"
    from compare_prices_returns [OF run] obtain own_price rs where
      R: "res = (url p, own_price) # rs"
         "list_all (\<lambda>r. case snd r of None \<Rightarrow> True | Some v \<Rightarrow> v \<ge> 101 / 100)
            ((url p, own_price) # rs)"
      by blast
    have "0 \<notin> set (valid_prices res)"
    proof
      assume "0 \<in> set (valid_prices res)"
      with valid_prices_ge [of res 0] R have "(0::rat) \<ge> 101 / 100" by simp
      then show False by simp
    qed
    with compare_then_analyze [OF run]
    show "0 \<notin> set (valid_prices res) \<and> (\<exists>report. analyze_results p res errs = Inr report)"
      by simp
  qed
  from a c d show ?thesis by blast
qed

subsection \<open>A missing own price\<close>

text \<open>
  Claim C6, as stated, fails in its last part: in the run whose own URL refuses the
  connection and whose first competitor answers 404, the report is the single statement
  about the own price; the competitor's error is returned by \<open>compare_prices\<close> and is not
  in the report.
\<close>

theorem own_failure_report_counterexample:
  "fst (compare_prices demo_env demo_product_down initial_state) =
     Inr ([(''https://shop.example/down'', None),
           (''https://shop.example/missing'', None),
           (''https://shop.example/item-a'', Some (1999 / 100))],
          [(''https://shop.example/down'', Some (UnexpectedError (RequestException ''Connection refused''))),
           (''https://shop.example/missing'', Some (ErrorFetching (HTTPError 404))),
           (''https://shop.example/item-a'', None)])
   \<and> analyze_results demo_product_down
         [(''https://shop.example/down'', None),
          (''https://shop.example/missing'', None),
          (''https://shop.example/item-a'', Some (1999 / 100))]
         [(''https://shop.example/down'', Some (UnexpectedError (RequestException ''Connection refused''))),
          (''https://shop.example/missing'', Some (ErrorFetching (HTTPError 404))),
          (''https://shop.example/item-a'', None)] =
       Inr [UnableOwn ''https://shop.example/down''
              (Some (UnexpectedError (RequestException ''Connection refused'')))]
   \<and> Some (ErrorFetching (HTTPError 404)) \<notin>
       set (reported_errors [UnableOwn ''https://shop.example/down''
              (Some (UnexpectedError (RequestException ''Connection refused'')))])"
proof -
  have a: "fst (compare_prices demo_env demo_product_down initial_state) =
     Inr ([(''https://shop.example/down'', None),
           (''https://shop.example/missing'', None),
           (''https://shop.example/item-a'', Some (1999 / 100))],
          [(''https://shop.example/down'', Some (UnexpectedError (RequestException ''Connection refused''))),
           (''https://shop.example/missing'', Some (ErrorFetching (HTTPError 404))),
           (''https://shop.example/item-a'', None)])"
    by (simp add: demo_run_down)
  have b: "analyze_results demo_product_down
         [(''https://shop.example/down'', None),
          (''https://shop.example/missing'', None),
          (''https://shop.example/item-a'', Some (1999 / 100))]
         [(''https://shop.example/down'', Some (UnexpectedError (RequestException ''Connection refused''))),
          (''https://shop.example/missing'', Some (ErrorFetching (HTTPError 404))),
          (''https://shop.example/item-a'', None)] =
       Inr [UnableOwn ''https://shop.example/down''
              (Some (UnexpectedError (RequestException ''Connection refused'')))]"
    by (simp add: analyze_results_def demo_product_down_def)
  have c: "Some (ErrorFetching (HTTPError 404)) \<notin>
       set (reported_errors [UnableOwn ''https://shop.example/down''
              (Some (UnexpectedError (RequestException ''Connection refused'')))])"
    by (simp add: reported_errors_def)
  from a b c show ?thesis by blast
qed

text \<open>
  Claim C6, amended. When the own price is missing, the report is exactly the statement
  that the own price could not be fetched, with the own error: whatever the competitor
  outcomes are, nothing about a competitor (no comparison, no competitor error) is in
  it. For the results of a run the own error is present.
\<close>

theorem own_failure_report:
  "analyze_results p ((own_url, None) # cps) ((err_url, own_error) # es) =
      Inr [UnableOwn (url p) own_error]
   \<and> reported_errors [UnableOwn (url p) own_error] = [own_error]
   \<and> (compare_prices E p st = (Inr ((own_url, None) # cps, errs), st')
        \<longrightarrow> (\<exists>e rest. errs = (url p, Some e) # rest
               \<and> analyze_results p ((own_url, None) # cps) errs = Inr [UnableOwn (url p) (Some e)]))"
proof -
  have a: "analyze_results p ((own_url, None) # cps) ((err_url, own_error) # es) =
             Inr [UnableOwn (url p) own_error]"
    by (simp add: analyze_results_def)
  have b: "reported_errors [UnableOwn (url p) own_error] = [own_error]"
    by (simp add: reported_errors_def)
  have c: "compare_prices E p st = (Inr ((own_url, None) # cps, errs), st')
        \<longrightarrow> (\<exists>e rest. errs = (url p, Some e) # rest
               \<and> analyze_results p ((own_url, None) # cps) errs = Inr [UnableOwn (url p) (Some e)])"
  proof
    assume run: "compare_prices E p st = (Inr ((own_url, None) # cps, errs), st')"
    from compare_prices_returns [OF run] obtain own_price own_error' rs rest where
      R: "(own_url, None) # cps = (url p, own_price) # rs" "errs = (url p, own_error') # rest"
         "(own_price = None) \<noteq> (own_error' = None)"
      by blast
    from R(1,3) obtain e where e: "own_error' = Some e" by auto
    have "analyze_results p ((own_url, None) # cps) errs = Inr [UnableOwn (url p) (Some e)]"
      using R(2) e by (simp add: analyze_results_def)
    with R(2) e
    show "\<exists>e rest. errs = (url p, Some e) # rest
               \<and> analyze_results p ((own_url, None) # cps) errs = Inr [UnableOwn (url p) (Some e)]"
      by blast
  qed
  from a b c show ?thesis by blast
qed

theorem own_failure_report_witness:
  "\<exists>e rest.
     [(''https://shop.example/down'', Some (UnexpectedError (RequestException ''Connection refused''))),
      (''https://shop.example/missing'', Some (ErrorFetching (HTTPError 404))),
      (''https://shop.example/item-a'', None)] = (url demo_product_down, Some e) # rest
     \<and> analyze_results demo_product_down
          [(''https://shop.example/down'', None),
           (''https://shop.example/missing'', None),
           (''https://shop.example/item-a'', Some (1999 / 100))]
          [(''https://shop.example/down'', Some (UnexpectedError (RequestException ''Connection refused''))),
           (''https://shop.example/missing'', Some (ErrorFetching (HTTPError 404))),
           (''https://shop.example/item-a'', None)] =
        Inr [UnableOwn (url demo_product_down) (Some e)]"
  using own_failure_report [where E = demo_env and p = demo_product_down and st = initial_state]
    demo_run_down
  by blast


subsection \<open>The progress values\<close>














subsection \<open>fetch\_price: outcomes and exceptions\<close>

lemma fetch_price_transport_errors_caught:
  "requests_get E (length sent) u first_headers = GetRaises m
     \<Longrightarrow> fetch_price E u sent =
           (Inr (None, Some (UnexpectedError (RequestException m))), sent @ [(u, first_headers)])"
  "requests_get E (length sent) u first_headers = Response 403 text
     \<Longrightarrow> requests_get E (Suc (length sent)) u
           (get_random_headers (random_choice E (Suc (length sent)))) = GetRaises m
     \<Longrightarrow> fst (fetch_price E u sent) =
           Inr (None, Some (ErrorFetchingBypass (RequestException m)))"
  by (simp_all add: fetch_price_def attempt_def Let_def)

lemma py_in_raises: "py_in k j = Inl e \<Longrightarrow> e = TypeError"
  by (cases j) auto

lemma py_getitem_raises: "py_getitem j k = Inl e \<Longrightarrow> e = TypeError \<or> e = KeyError"
  by (cases j) (auto split: option.splits)

lemma parse_price_json_raises: "parse_price_json j = Inl e \<Longrightarrow> e = TypeError"
  by (cases j) auto

lemma parse_price_attr_raises: "parse_price_attr a = Inl e \<Longrightarrow> e = TypeError"
  by (cases a) auto

lemma json_ld_step_raises:
  "json_ld_step E sc = Some (Inl e) \<Longrightarrow> e = TypeError \<or> e = IndexError \<or> e = KeyError"
  by (auto simp: json_ld_step_def
           dest: py_in_raises py_getitem_raises parse_price_json_raises
           split: option.splits sum.splits bool.splits json.splits list.splits)

lemma extract_price_raises:
  "extract_price E html u = Inl e \<Longrightarrow> e = TypeError \<or> e = IndexError \<or> e = KeyError"
  by (auto simp: extract_price_def Let_def meta_loop_meta_tags
           dest: parse_price_attr_raises json_ld_step_raises
           split: option.splits)

lemma fetch_price_raises_only_after_retry:
  assumes "fetch_price E u sent = (Inl e, sent')"
  shows "\<not> is_request_exception e
         \<and> (\<exists>text. requests_get E (length sent) u first_headers = Response 403 text)
         \<and> (\<exists>status text.
               requests_get E (Suc (length sent)) u
                 (get_random_headers (random_choice E (Suc (length sent)))) = Response status text
               \<and> extract_price E text u = Inl e)"
  using assms
  by (auto simp: fetch_price_def attempt_def Let_def
           dest: extract_price_raises
           split: sum.splits exn.splits if_splits get_result.splits option.splits)

text \<open>
  Claim C7 fails on the code. The URL \<^verbatim>\<open>/blocked\<close> answers 403 to the first request and
  200 to the retry, with a page whose JSON-LD \<^verbatim>\<open>offers.price\<close> is the number 19.99, on
  which \<open>extract_price\<close> raises \<^verbatim>\<open>TypeError\<close>. The retry only catches the exceptions of the
  requests library, so \<open>fetch_price\<close> returns no pair: the exception leaves it and ends
  the run of \<open>compare_prices\<close> before the remaining competitor is fetched. The same page
  served to a first request (\<^verbatim>\<open>/item-n\<close>) gives an "unexpected error" outcome.
\<close>

theorem retry_exception_escapes:
  "fetch_price demo_env ''https://shop.example/blocked'' [] =
     (Inl TypeError, [(''https://shop.example/blocked'', first_headers),
                      (''https://shop.example/blocked'', get_random_headers 1)])
   \<and> fst (fetch_price demo_env ''https://shop.example/item-n'' []) =
       Inr (None, Some (UnexpectedError TypeError))
   \<and> compare_prices demo_env demo_product_blocked initial_state =
       (Inl TypeError,
        \<lparr>requests = [(''https://shop.example/item-a'', first_headers),
                      (''https://shop.example/blocked'', first_headers),
                      (''https://shop.example/blocked'', get_random_headers 2)],
          progress = [0, 1 / 3],
          events = [Progress 0, Fetched ''https://shop.example/item-a'', Progress (1 / 3)]\<rparr>)"
proof -
  have a: "fetch_price demo_env ''https://shop.example/blocked'' [] =
     (Inl TypeError, [(''https://shop.example/blocked'', first_headers),
                      (''https://shop.example/blocked'', get_random_headers 1)])"
    by (simp add: eval_defs net_defs)
  have b: "fst (fetch_price demo_env ''https://shop.example/item-n'' []) =
       Inr (None, Some (UnexpectedError TypeError))"
    by (simp add: eval_defs net_defs)
  from a b demo_run_blocked show ?thesis by blast
qed

subsection \<open>The retry after a 403\<close>

text \<open>
  Claim C3, as stated, fails: the status 300 is a non-success status other than 403, and
  \<^verbatim>\<open>raise_for_status\<close> does not raise for it; \<open>fetch_price\<close> extracts a price from the body
  instead of failing with an HTTP-error outcome.
\<close>

theorem non_error_status_counterexample:
  "requests_get demo_env 0 ''https://shop.example/choices'' first_headers =
     Response 300 page_microdata
   \<and> fetch_price demo_env ''https://shop.example/choices'' [] =
       (Inr (Some (1999 / 100), None), [(''https://shop.example/choices'', first_headers)])"
  by (simp add: eval_defs net_defs)

text \<open>
  Claim C3, amended. When the first GET answers 403, \<open>fetch_price\<close> sends exactly one more
  request, with the seven headers of \<open>get_random_headers\<close> and one of the three user
  agents. If the retry answers a status outside 400 to 599 and the extraction returns,
  the outcome is the price or "not found"; if it answers a status from 400 to 599 (a
  second 403 among them) or the requests library raises, the outcome is the error
  labelled as the bypass case. When the first GET answers a status from 400 to 599 other
  than 403, the outcome is the HTTP error and no second request is sent. Every other
  status of the first GET (1xx, 2xx, 3xx) is no error: the body goes to the extraction,
  no second request is sent, and the outcome is the price, "not found", or the
  "unexpected error" of an exception the extraction raises.
\<close>

theorem fetch_price_retry_protocol:
  assumes "requests_get E (length sent) u first_headers = Response status text"
  shows
   "(status = 403 \<longrightarrow>
        snd (fetch_price E u sent) =
          sent @ [(u, first_headers),
                  (u, get_random_headers (random_choice E (Suc (length sent))))]
        \<and> map fst (get_random_headers (random_choice E (Suc (length sent)))) =
            [''User-Agent'', ''Accept'', ''Accept-Language'', ''Referer'', ''DNT'',
             ''Connection'', ''Upgrade-Insecure-Requests'']
        \<and> (\<exists>ua. map_of (get_random_headers (random_choice E (Suc (length sent)))) ''User-Agent''
                    = Some ua \<and> ua \<in> set user_agents))
    \<and> (status = 403
        \<and> requests_get E (Suc (length sent)) u
             (get_random_headers (random_choice E (Suc (length sent)))) = Response status2 text2
        \<and> \<not> (400 \<le> status2 \<and> status2 < 600) \<and> extract_price E text2 u = Inr (Some v)
        \<longrightarrow> fst (fetch_price E u sent) = Inr (Some v, None))
    \<and> (status = 403
        \<and> requests_get E (Suc (length sent)) u
             (get_random_headers (random_choice E (Suc (length sent)))) = Response status2 text2
        \<and> \<not> (400 \<le> status2 \<and> status2 < 600) \<and> extract_price E text2 u = Inr None
        \<longrightarrow> fst (fetch_price E u sent) = Inr (None, Some PriceNotFound))
    \<and> (status = 403
        \<and> requests_get E (Suc (length sent)) u
             (get_random_headers (random_choice E (Suc (length sent)))) = Response status2 text2
        \<and> 400 \<le> status2 \<and> status2 < 600
        \<longrightarrow> fst (fetch_price E u sent) =
              Inr (None, Some (ErrorFetchingBypass (HTTPError status2))))
    \<and> (status = 403
        \<and> requests_get E (Suc (length sent)) u
             (get_random_headers (random_choice E (Suc (length sent)))) = GetRaises m
        \<longrightarrow> fst (fetch_price E u sent) =
              Inr (None, Some (ErrorFetchingBypass (RequestException m))))
    \<and> (400 \<le> status \<and> status < 600 \<and> status \<noteq> 403
        \<longrightarrow> fetch_price E u sent =
              (Inr (None, Some (ErrorFetching (HTTPError status))), sent @ [(u, first_headers)]))
    \<and> (\<not> (400 \<le> status \<and> status < 600)
        \<longrightarrow> fetch_price E u sent =
              (Inr (case extract_price E text u of
                      Inr (Some price) \<Rightarrow> (Some price, None)
                    | Inr None \<Rightarrow> (None, Some PriceNotFound)
                    | Inl e \<Rightarrow> (None, Some (UnexpectedError e))),
               sent @ [(u, first_headers)]))"
proof -
  have ua: "\<exists>ua. map_of (get_random_headers (random_choice E (Suc (length sent)))) ''User-Agent''
                    = Some ua \<and> ua \<in> set user_agents"
  proof -
    have "random_choice E (Suc (length sent)) mod 3 < length user_agents"
      by (simp add: user_agents_def)
    then have "user_agents ! (random_choice E (Suc (length sent)) mod 3) \<in> set user_agents"
      by (rule nth_mem)
    then show ?thesis by (simp add: get_random_headers_def)
  qed
  have names: "map fst (get_random_headers (random_choice E (Suc (length sent)))) =
            [''User-Agent'', ''Accept'', ''Accept-Language'', ''Referer'', ''DNT'',
             ''Connection'', ''Upgrade-Insecure-Requests'']"
    by (simp add: get_random_headers_def)
  have log: "status = 403 \<longrightarrow>
        snd (fetch_price E u sent) =
          sent @ [(u, first_headers),
                  (u, get_random_headers (random_choice E (Suc (length sent))))]"
    using assms
    by (auto simp: fetch_price_def attempt_def Let_def split: sum.splits get_result.splits
          option.splits)
  have rest:
    "(status = 403
        \<and> requests_get E (Suc (length sent)) u
             (get_random_headers (random_choice E (Suc (length sent)))) = Response status2 text2
        \<and> \<not> (400 \<le> status2 \<and> status2 < 600) \<and> extract_price E text2 u = Inr (Some v)
        \<longrightarrow> fst (fetch_price E u sent) = Inr (Some v, None))
    \<and> (status = 403
        \<and> requests_get E (Suc (length sent)) u
             (get_random_headers (random_choice E (Suc (length sent)))) = Response status2 text2
        \<and> \<not> (400 \<le> status2 \<and> status2 < 600) \<and> extract_price E text2 u = Inr None
        \<longrightarrow> fst (fetch_price E u sent) = Inr (None, Some PriceNotFound))
    \<and> (status = 403
        \<and> requests_get E (Suc (length sent)) u
             (get_random_headers (random_choice E (Suc (length sent)))) = Response status2 text2
        \<and> 400 \<le> status2 \<and> status2 < 600
        \<longrightarrow> fst (fetch_price E u sent) =
              Inr (None, Some (ErrorFetchingBypass (HTTPError status2))))
    \<and> (status = 403
        \<and> requests_get E (Suc (length sent)) u
             (get_random_headers (random_choice E (Suc (length sent)))) = GetRaises m
        \<longrightarrow> fst (fetch_price E u sent) =
              Inr (None, Some (ErrorFetchingBypass (RequestException m))))
    \<and> (400 \<le> status \<and> status < 600 \<and> status \<noteq> 403
        \<longrightarrow> fetch_price E u sent =
              (Inr (None, Some (ErrorFetching (HTTPError status))), sent @ [(u, first_headers)]))"
    using assms by (simp add: fetch_price_def attempt_def Let_def)
  have other: "\<not> (400 \<le> status \<and> status < 600)
        \<longrightarrow> fetch_price E u sent =
              (Inr (case extract_price E text u of
                      Inr (Some price) \<Rightarrow> (Some price, None)
                    | Inr None \<Rightarrow> (None, Some PriceNotFound)
                    | Inl e \<Rightarrow> (None, Some (UnexpectedError e))),
               sent @ [(u, first_headers)])"
  proof
    assume ok: "\<not> (400 \<le> status \<and> status < 600)"
    show "fetch_price E u sent =
              (Inr (case extract_price E text u of
                      Inr (Some price) \<Rightarrow> (Some price, None)
                    | Inr None \<Rightarrow> (None, Some PriceNotFound)
                    | Inl e \<Rightarrow> (None, Some (UnexpectedError e))),
               sent @ [(u, first_headers)])"
    proof (cases "extract_price E text u")
      case (Inl e)
      from extract_price_raises [OF Inl] have "e = TypeError \<or> e = IndexError \<or> e = KeyError" .
      then show ?thesis
        using assms ok Inl by (auto simp: fetch_price_def attempt_def Let_def)
    next
      case (Inr r)
      then show ?thesis
        using assms ok by (cases r) (auto simp: fetch_price_def attempt_def Let_def)
    qed
  qed
  from ua names log rest other show ?thesis by blast
qed

theorem fetch_price_retry_protocol_witness:
  "snd (fetch_price demo_env ''https://shop.example/always-blocked'' []) =
     [(''https://shop.example/always-blocked'', first_headers),
      (''https://shop.example/always-blocked'', get_random_headers 1)]
   \<and> fst (fetch_price demo_env ''https://shop.example/always-blocked'' []) =
       Inr (None, Some (ErrorFetchingBypass (HTTPError 403)))
   \<and> fst (fetch_price demo_env ''https://shop.example/blocked-down'' []) =
       Inr (None, Some (ErrorFetchingBypass (RequestException ''Connection refused'')))
   \<and> fst (fetch_price demo_env ''https://shop.example/blocked-ok'' []) =
       Inr (Some (1999 / 100), None)
   \<and> fst (fetch_price demo_env ''https://shop.example/blocked-empty'' []) =
       Inr (None, Some PriceNotFound)
   \<and> fetch_price demo_env ''https://shop.example/missing'' [] =
       (Inr (None, Some (ErrorFetching (HTTPError 404))),
        [(''https://shop.example/missing'', first_headers)])
   \<and> fetch_price demo_env ''https://shop.example/choices'' [] =
       (Inr (Some (1999 / 100), None), [(''https://shop.example/choices'', first_headers)])
   \<and> fetch_price demo_env ''https://shop.example/item-n'' [] =
       (Inr (None, Some (UnexpectedError TypeError)),
        [(''https://shop.example/item-n'', first_headers)])"
proof -
  have rc: "random_choice demo_env (Suc 0) = Suc 0"
    by (simp add: demo_env_def)
  have ne: "get_random_headers 1 \<noteq> first_headers"
    by (simp add: get_random_headers_def first_headers_def)
  have g1: "requests_get demo_env (length ([] :: (string \<times> headers) list))
              ''https://shop.example/always-blocked'' first_headers = Response 403 ''''"
    by (simp add: demo_env_def demo_get_def)
  have g1': "requests_get demo_env (Suc (length ([] :: (string \<times> headers) list)))
              ''https://shop.example/always-blocked'' (get_random_headers 1) = Response 403 ''''"
    by (simp add: demo_env_def demo_get_def)
  have c1: "snd (fetch_price demo_env ''https://shop.example/always-blocked'' []) =
     [(''https://shop.example/always-blocked'', first_headers),
      (''https://shop.example/always-blocked'', get_random_headers 1)]
   \<and> fst (fetch_price demo_env ''https://shop.example/always-blocked'' []) =
       Inr (None, Some (ErrorFetchingBypass (HTTPError 403)))"
    using fetch_price_retry_protocol [OF g1, where ?status2.0 = 403 and ?text2.0 = "''''"] g1'
    by (simp add: rc)
  have g2: "requests_get demo_env (length ([] :: (string \<times> headers) list))
              ''https://shop.example/blocked-down'' first_headers = Response 403 ''''"
    by (simp add: demo_env_def demo_get_def)
  have g2': "requests_get demo_env (Suc (length ([] :: (string \<times> headers) list)))
              ''https://shop.example/blocked-down'' (get_random_headers 1) =
                GetRaises ''Connection refused''"
    using ne by (simp add: demo_env_def demo_get_def)
  have c2: "fst (fetch_price demo_env ''https://shop.example/blocked-down'' []) =
       Inr (None, Some (ErrorFetchingBypass (RequestException ''Connection refused'')))"
    using fetch_price_retry_protocol [OF g2, where m = "''Connection refused''"] g2'
    by (simp add: rc)
  have g3: "requests_get demo_env (length ([] :: (string \<times> headers) list))
              ''https://shop.example/blocked-ok'' first_headers = Response 403 ''''"
    by (simp add: demo_env_def demo_get_def)
  have g3': "requests_get demo_env (Suc (length ([] :: (string \<times> headers) list)))
              ''https://shop.example/blocked-ok'' (get_random_headers 1) =
                Response 200 page_microdata"
    using ne by (simp add: demo_env_def demo_get_def)
  have x3: "extract_price demo_env page_microdata ''https://shop.example/blocked-ok'' =
              Inr (Some (1999 / 100))"
    by (simp add: eval_defs)
  have c3: "fst (fetch_price demo_env ''https://shop.example/blocked-ok'' []) =
       Inr (Some (1999 / 100), None)"
    using fetch_price_retry_protocol
            [OF g3, where ?status2.0 = 200 and ?text2.0 = page_microdata and v = "1999 / 100"]
          g3' x3
    by (simp add: rc)
  have g4: "requests_get demo_env (length ([] :: (string \<times> headers) list))
              ''https://shop.example/blocked-empty'' first_headers = Response 403 ''''"
    by (simp add: demo_env_def demo_get_def)
  have g4': "requests_get demo_env (Suc (length ([] :: (string \<times> headers) list)))
              ''https://shop.example/blocked-empty'' (get_random_headers 1) = Response 200 ''''"
    using ne by (simp add: demo_env_def demo_get_def)
  have x4: "extract_price demo_env '''' ''https://shop.example/blocked-empty'' = Inr None"
    by (simp add: eval_defs)
  have c4: "fst (fetch_price demo_env ''https://shop.example/blocked-empty'' []) =
       Inr (None, Some PriceNotFound)"
    using fetch_price_retry_protocol [OF g4, where ?status2.0 = 200 and ?text2.0 = "''''"]
          g4' x4
    by (simp add: rc)
  have g5: "requests_get demo_env (length ([] :: (string \<times> headers) list))
              ''https://shop.example/missing'' first_headers = Response 404 ''''"
    by (simp add: demo_env_def demo_get_def)
  have c5: "fetch_price demo_env ''https://shop.example/missing'' [] =
       (Inr (None, Some (ErrorFetching (HTTPError 404))),
        [(''https://shop.example/missing'', first_headers)])"
    using fetch_price_retry_protocol [OF g5] by simp
  have g6: "requests_get demo_env (length ([] :: (string \<times> headers) list))
              ''https://shop.example/choices'' first_headers = Response 300 page_microdata"
    by (simp add: demo_env_def demo_get_def)
  have x6: "extract_price demo_env page_microdata ''https://shop.example/choices'' =
              Inr (Some (1999 / 100))"
    by (simp add: eval_defs)
  have c6: "fetch_price demo_env ''https://shop.example/choices'' [] =
       (Inr (Some (1999 / 100), None), [(''https://shop.example/choices'', first_headers)])"
    using fetch_price_retry_protocol [OF g6] x6 by simp
  have g7: "requests_get demo_env (length ([] :: (string \<times> headers) list))
              ''https://shop.example/item-n'' first_headers = Response 200 page_number_price"
    by (simp add: demo_env_def demo_get_def)
  have x7: "extract_price demo_env page_number_price ''https://shop.example/item-n'' =
              Inl TypeError"
    by (simp add: eval_defs)
  have c7: "fetch_price demo_env ''https://shop.example/item-n'' [] =
       (Inr (None, Some (UnexpectedError TypeError)),
        [(''https://shop.example/item-n'', first_headers)])"
    using fetch_price_retry_protocol [OF g7] x7 by simp
  from c1 c2 c3 c4 c5 c6 c7 show ?thesis by blast
qed


end
